theory Spec2Isabelle
  imports Main "HOL-Library.AList" "HOL-Library.Word"
begin

section \<open>Topology discovery: a model of \<open>creators/topology.py\<close>\<close>

text \<open>
  The development follows the class \<open>Topology\<close>. Python dictionaries whose iteration
  order the code depends on are association lists (insertion order, as Python keeps it,
  with \<open>map_of\<close> for lookup and \<open>AList.update\<close> for assignment); Python sets are HOL
  sets; every exception the code can raise on a well-typed input is a value of
  \<open>py_error\<close>, returned as \<open>Inl\<close>.
\<close>

datatype py_error =
  TypeError | KeyError | IndexError | AttributeError | AddressValueError | DuplicateLinkError

subsection \<open>Python's substring test\<close>

text \<open>\<open>sub in s\<close> on two Python strings: \<open>sub\<close> occurs in \<open>s\<close> as a contiguous run.\<close>

fun py_in :: "string \<Rightarrow> string \<Rightarrow> bool" where
  "py_in sub [] = (sub = [])"
| "py_in sub (c # cs) = (take (length sub) (c # cs) = sub \<or> py_in sub cs)"

subsection \<open>\<open>get_os\<close>\<close>

definition get_os :: "string \<Rightarrow> string \<Rightarrow> string option" where
  "get_os system_string platform_name =
     (if py_in ''IOS'' system_string \<or> py_in ''IOS'' platform_name then
        (if py_in ''XE'' system_string \<or> py_in ''XE'' platform_name then Some ''iosxe''
         else if py_in ''XR'' system_string \<or> py_in ''XR'' platform_name then Some ''iosxr''
         else Some ''ios'')
      else if py_in ''NX-OS'' system_string \<or> py_in ''NX-OS'' platform_name then Some ''nxos''
      else None)"

text \<open>The specification's wording: a marker appears in either of the two fields.\<close>

definition appears :: "string \<Rightarrow> string \<Rightarrow> string \<Rightarrow> bool" where
  "appears marker system_string platform_name =
     (\<exists>pre post. system_string = pre @ marker @ post \<or> platform_name = pre @ marker @ post)"

subsection \<open>The connection ledger: \<open>add_to_device_connections\<close>\<close>

text \<open>
  One entry of a device's connection dictionary is the Python dict
  \<open>{'dest_host': ..., 'dest_port': ...}\<close>, with a field for each of the two keys; the
  dictionary maps a local interface name to the list of such entries.
\<close>

record conn_entry =
  entry_host :: string
  entry_port :: string

type_synonym device_connections = "(string \<times> conn_entry list) list"

text \<open>
  The \<open>for ... else\<close> loop appends the new entry only when no existing entry has the same
  host and port. The argument \<open>dev\<close> is used for logging only.
\<close>

definition add_to_device_connections ::
  "device_connections \<Rightarrow> string \<Rightarrow> string \<Rightarrow> string \<Rightarrow> string \<Rightarrow> device_connections" where
  "add_to_device_connections device_connections dest_host dest_port interface dev =
     (let new_entry = \<lparr>entry_host = dest_host, entry_port = dest_port\<rparr> in
      case map_of device_connections interface of
        None \<Rightarrow> AList.update interface [new_entry] device_connections
      | Some entries \<Rightarrow>
          if \<exists>entry \<in> set entries. entry_host entry = dest_host \<and> entry_port entry = dest_port
          then device_connections
          else AList.update interface (entries @ [new_entry]) device_connections)"

text \<open>
  Reprocessing neighbour data: a sequence of recorded facts
  \<open>(interface, dest_host, dest_port)\<close>, each passed to \<open>add_to_device_connections\<close> on the
  same dictionary, as the loops of the CDP and LLDP processing do.
\<close>

fun record_all :: "device_connections \<Rightarrow> (string \<times> string \<times> string) list \<Rightarrow> string \<Rightarrow> device_connections" where
  "record_all dc [] dev = dc"
| "record_all dc ((interface, dest_host, dest_port) # facts) dev =
     record_all (add_to_device_connections dc dest_host dest_port interface dev) facts dev"

definition entries_for :: "device_connections \<Rightarrow> string \<Rightarrow> conn_entry list" where
  "entries_for dc interface = (case map_of dc interface of None \<Rightarrow> [] | Some es \<Rightarrow> es)"

subsection \<open>The device registry: \<open>add_to_device_list\<close>\<close>

text \<open>
  A value of \<open>device_list\<close> is a Python dict with the keys \<open>ports\<close> and \<open>new_device\<close>
  and, for a device found as a neighbour, also \<open>ip\<close>, \<open>os\<close> and \<open>finder\<close>. A key that
  the dict does not have is \<open>None\<close> here, and reading it raises \<open>KeyError\<close>; the value
  of \<open>os\<close> is itself a string or Python's \<open>None\<close>, and so is every management address
  (the LLDP path stores \<open>{ip_address}\<close> whether or not an address was found).
\<close>

record device_fact =
  ports :: "string set"
  ip :: "string option set option"
  os :: "string option option"
  finder :: "(string \<times> string set) option"
  new_device :: bool

type_synonym device_list = "(string \<times> device_fact) list"

text \<open>
  The last statement of \<open>add_to_device_list\<close> (source lines 456 to 461): the entry of the
  discovering device. The \<open>else\<close> branch indexes \<open>device_list\<close> by \<open>dest_host\<close>.
\<close>

definition add_discovering_device :: "device_list \<Rightarrow> string \<Rightarrow> string \<Rightarrow> string \<Rightarrow> py_error + device_list" where
  "add_discovering_device device_list dest_host discover_name interface =
     (if map_of device_list discover_name = None then
        Inr (AList.update discover_name
              \<lparr>ports = {interface}, ip = None, os = None, finder = None, new_device = False\<rparr>
              device_list)
      else
        (case map_of device_list dest_host of
           None \<Rightarrow> Inl KeyError
         | Some known \<Rightarrow>
             Inr (AList.update dest_host (known\<lparr>ports := insert interface (ports known)\<rparr>) device_list)))"

definition add_to_device_list ::
  "device_list \<Rightarrow> string \<Rightarrow> string \<Rightarrow> string set \<Rightarrow> string option set \<Rightarrow> string option
     \<Rightarrow> string \<Rightarrow> string \<Rightarrow> py_error + device_list" where
  "add_to_device_list device_list dest_host dest_port int_address mgmt_address os_guess
       discover_name interface =
     (let int_address = int_address - Option.these mgmt_address in
      case map_of device_list dest_host of
        None \<Rightarrow>
          add_discovering_device
            (AList.update dest_host
               \<lparr>ports = {dest_port}, ip = Some mgmt_address, os = Some os_guess,
                finder = Some (discover_name, int_address), new_device = True\<rparr>
               device_list)
            dest_host discover_name interface
      | Some known \<Rightarrow>
          (let known = known\<lparr>ports := insert dest_port (ports known)\<rparr> in
           if \<not> new_device known then Inr (AList.update dest_host known device_list)
           else
             (case os known of
                None \<Rightarrow> Inl KeyError
              | Some current \<Rightarrow>
                  (let known = (if current = None then known\<lparr>os := Some os_guess\<rparr> else known) in
                   case ip known of
                     None \<Rightarrow> Inl KeyError
                   | Some addresses \<Rightarrow>
                       add_discovering_device
                         (AList.update dest_host
                            (known\<lparr>ip := Some (addresses \<union> mgmt_address)\<rparr>) device_list)
                         dest_host discover_name interface))))"

subsection \<open>Addresses and excluded networks\<close>

text \<open>
  \<open>exclude_networks\<close> holds what \<open>ipaddress.ip_network\<close> returned: a version 4 or a
  version 6 network, with its network address and its netmask. The test
  \<open>ipaddress.IPv4Address(ip) in net\<close> first parses the string, raising
  \<open>AddressValueError\<close> when it is not a dotted quad; the parser is a parameter
  \<open>IPv4Address\<close> of the functions below. A version 4 address is never in a version 6
  network; it is in a version 4 network when its masked value is the network address.
\<close>

datatype ip_network = IPv4Network "32 word" "32 word" | IPv6Network "128 word" "128 word"

definition in_network :: "32 word \<Rightarrow> ip_network \<Rightarrow> bool" where
  "in_network address net =
     (case net of
        IPv4Network network_address netmask \<Rightarrow> and address netmask = network_address
      | IPv6Network _ _ \<Rightarrow> False)"

text \<open>
  The two loops over \<open>product(int_set, exclude_networks)\<close> and over \<open>exclude_networks\<close>:
  the pairs are tried in order, the first address lying in its network stops the loop, and
  an address that does not parse raises.
\<close>

fun in_excluded_network ::
  "(string \<Rightarrow> 32 word option) \<Rightarrow> (string \<times> ip_network) list \<Rightarrow> py_error + bool" where
  "in_excluded_network IPv4Address [] = Inr False"
| "in_excluded_network IPv4Address ((ip_text, net) # pairs) =
     (case IPv4Address ip_text of
        None \<Rightarrow> Inl AddressValueError
      | Some address \<Rightarrow>
          if in_network address net then Inr True
          else in_excluded_network IPv4Address pairs)"

text \<open>
  A dotted-quad parser for the examples: four decimal octets of at most three ASCII
  digits, each at most 255 and without a leading zero.
\<close>

fun split_on :: "char \<Rightarrow> string \<Rightarrow> string list" where
  "split_on sep [] = [[]]"
| "split_on sep (c # cs) =
     (if c = sep then [] # split_on sep cs
      else (case split_on sep cs of [] \<Rightarrow> [[c]] | w # ws \<Rightarrow> (c # w) # ws))"

definition is_digit :: "char \<Rightarrow> bool" where
  "is_digit c = (48 \<le> (of_char c :: nat) \<and> (of_char c :: nat) \<le> 57)"

definition parse_octet :: "string \<Rightarrow> nat option" where
  "parse_octet s =
     (if s = [] \<or> \<not> list_all is_digit s \<or> 3 < length s \<or> (s \<noteq> ''0'' \<and> hd s = CHR ''0'')
      then None
      else (let n = foldl (\<lambda>acc c. 10 * acc + (of_char c - 48)) 0 s
            in if 255 < n then None else Some n))"

definition dotted_quad :: "string \<Rightarrow> 32 word option" where
  "dotted_quad s =
     (case map parse_octet (split_on (CHR ''.'') s) of
        [Some a, Some b, Some c, Some d] \<Rightarrow> Some (word_of_nat (((a * 256 + b) * 256 + c) * 256 + d))
      | _ \<Rightarrow> None)"

subsection \<open>The host name filter\<close>

text \<open>
  \<open>re.compile(r'^.*?(?P<hostname>[-\w]+)\s?').match(dest_host)\<close>: the lazy prefix stops
  at the first character of the class \<open>[-\w]\<close>, and cannot cross a newline; the group is
  the longest run of such characters from there. Host names are taken to be ASCII, where
  \<open>\w\<close> is a letter, a digit or the underscore.
\<close>

definition hostname_char :: "char \<Rightarrow> bool" where
  "hostname_char c =
     (let n = (of_char c :: nat) in
      c = CHR ''-'' \<or> c = CHR ''_'' \<or> (48 \<le> n \<and> n \<le> 57) \<or> (65 \<le> n \<and> n \<le> 90)
        \<or> (97 \<le> n \<and> n \<le> 122))"

fun domain_filter :: "string \<Rightarrow> string option" where
  "domain_filter [] = None"
| "domain_filter (c # cs) =
     (if hostname_char c then Some (takeWhile hostname_char (c # cs))
      else if c = CHR 0x0A then None
      else domain_filter cs)"

subsection \<open>The testbed\<close>

text \<open>
  The objects of \<open>genie.conf.base\<close> that the creator reads and writes. An interface is
  identified by its device's name and its own; it holds a reference to its link, and a
  link holds its name and the list of its interfaces. Link objects, the lists that are
  proxy values and the step dicts \<open>{'device': ..., 'command': ...}\<close> in those lists are
  mutable and shared by reference, so each kind lives in a store, addressed by position: a
  proxy list is a list of references to steps. A connection is the dict of a device's
  \<open>connections\<close> entry; a key it does not have is \<open>None\<close>.
\<close>

record proxy_step =
  step_device :: string
  step_command :: string

datatype proxy_value = ProxyNone | ProxyName string | ProxyList nat | ProxyOther

record connection =
  protocol :: "string option"
  conn_address :: "string option"
  proxy :: "proxy_value option"

record interface =
  link :: "nat option"

record link_object =
  link_name :: string
  link_interfaces :: "(string \<times> string) list"

record device =
  dev_interfaces :: "(string \<times> interface) list"
  connections :: "(string \<times> connection) list"

record testbed =
  devices :: "(string \<times> device) list"
  link_store :: "link_object list"
  proxy_store :: "nat list list"
  step_store :: "proxy_step list"

subsection \<open>Neighbour data\<close>

text \<open>
  The parsers' output, typed after the way the code reads it: a field read with
  \<open>.get\<close> may be absent, a field read by subscript is there. The address fields of a CDP
  entry are dicts keyed by address; the list holds the keys in the order in which the set
  built from them is iterated.
\<close>

record cdp_entry =
  system_name :: "string option"
  device_id :: "string option"
  port_id :: string
  local_interface :: string
  management_addresses :: "string list option"
  interface_addresses :: "string list option"
  software_version :: string
  platform :: string

record cdp_result =
  index :: "(nat \<times> cdp_entry) list"

record lldp_neighbor =
  management_address :: "string option"
  management_address_v4 :: "string option"
  system_description :: string

record lldp_port =
  neighbors :: "(string \<times> lldp_neighbor) list"

record lldp_interface =
  lldp_port_id :: "(string \<times> lldp_port) list"

record lldp_result =
  total_entries :: int
  interfaces :: "(string \<times> lldp_interface) list"

text \<open>A device's entry of the polling result; \<open>None\<close> is an absent or empty value.\<close>

record neighbor_data =
  cdp :: "cdp_result option"
  lldp :: "lldp_result option"

text \<open>
  The attributes of \<open>self\<close> that the processing reads. \<open>exclude_interfaces\<close> is the
  string of the argument, as \<open>_init_arguments\<close> declares it (default \<open>''\<close>); the code
  never splits it.
\<close>

record topology =
  only_links :: bool
  exclude_interfaces :: string

subsection \<open>\<open>_process_cdp_information\<close>\<close>

text \<open>
  The body of the loop over \<open>result['index']\<close>, for one entry. A \<open>continue\<close> returns
  the registry and the connection dictionary as they came. Matching the filter against
  \<open>None\<close> (neither name present) and iterating an absent address field raise
  \<open>TypeError\<close>.
\<close>

definition process_cdp_connection ::
  "topology \<Rightarrow> (string \<Rightarrow> 32 word option) \<Rightarrow> cdp_entry \<Rightarrow> string \<Rightarrow> device_list
     \<Rightarrow> ip_network list \<Rightarrow> testbed \<Rightarrow> device_connections
     \<Rightarrow> py_error + device_list \<times> device_connections" where
  "process_cdp_connection self IPv4Address connection device_name device_list exclude_networks
       testbed device_connections =
     (let dest_host =
            (case system_name connection of
               None \<Rightarrow> device_id connection
             | Some name \<Rightarrow> if name = [] then device_id connection else Some name) in
      case dest_host of
        None \<Rightarrow> Inl TypeError
      | Some dest_host \<Rightarrow>
          (let dest_host = (case domain_filter dest_host of
                              Some hostname \<Rightarrow> hostname | None \<Rightarrow> dest_host) in
           if only_links self \<and> dest_host \<notin> fst ` set (devices testbed)
           then Inr (device_list, device_connections)
           else
             (let dest_port = port_id connection;
                  interface = local_interface connection in
              if py_in interface (exclude_interfaces self)
              then Inr (device_list, device_connections)
              else if py_in dest_port (exclude_interfaces self)
              then Inr (device_list, device_connections)
              else
                (case interface_addresses connection of
                   None \<Rightarrow> Inl TypeError
                 | Some int_address \<Rightarrow>
                     (case management_addresses connection of
                        None \<Rightarrow> Inl TypeError
                      | Some mgmt_address \<Rightarrow>
                          (let int_set = remdups int_address;
                               mgmt_set = remdups mgmt_address in
                           case in_excluded_network IPv4Address
                                  (List.product int_set exclude_networks) of
                             Inl e \<Rightarrow> Inl e
                           | Inr stop_int \<Rightarrow>
                               (case in_excluded_network IPv4Address
                                       (List.product mgmt_set exclude_networks) of
                                  Inl e \<Rightarrow> Inl e
                                | Inr stop_mgmt \<Rightarrow>
                                    if stop_int \<or> stop_mgmt
                                    then Inr (device_list, device_connections)
                                    else
                                      (let os_guess = get_os (software_version connection)
                                                        (platform connection) in
                                       case add_to_device_list device_list dest_host dest_port
                                              (set int_set) (Some ` set mgmt_set) os_guess
                                              device_name interface of
                                         Inl e \<Rightarrow> Inl e
                                       | Inr device_list' \<Rightarrow>
                                           Inr (device_list',
                                                add_to_device_connections device_connections
                                                  dest_host dest_port interface device_name)))))))))"

fun process_cdp_entries ::
  "topology \<Rightarrow> (string \<Rightarrow> 32 word option) \<Rightarrow> cdp_entry list \<Rightarrow> string \<Rightarrow> device_list
     \<Rightarrow> ip_network list \<Rightarrow> testbed \<Rightarrow> device_connections
     \<Rightarrow> py_error + device_list \<times> device_connections" where
  "process_cdp_entries self IPv4Address [] device_name device_list exclude_networks testbed
       device_connections = Inr (device_list, device_connections)"
| "process_cdp_entries self IPv4Address (connection # rest) device_name device_list
       exclude_networks testbed device_connections =
     (case process_cdp_connection self IPv4Address connection device_name device_list
             exclude_networks testbed device_connections of
        Inl e \<Rightarrow> Inl e
      | Inr (device_list', device_connections') \<Rightarrow>
          process_cdp_entries self IPv4Address rest device_name device_list' exclude_networks
            testbed device_connections')"

definition process_cdp_information ::
  "topology \<Rightarrow> (string \<Rightarrow> 32 word option) \<Rightarrow> cdp_result \<Rightarrow> string \<Rightarrow> device_list
     \<Rightarrow> ip_network list \<Rightarrow> testbed \<Rightarrow> device_connections
     \<Rightarrow> py_error + device_list \<times> device_connections" where
  "process_cdp_information self IPv4Address result device_name device_list exclude_networks
       testbed device_connections =
     process_cdp_entries self IPv4Address (map snd (index result)) device_name device_list
       exclude_networks testbed device_connections"

subsection \<open>\<open>_process_lldp_information\<close>\<close>

text \<open>
  The body of the inner loop, for one remote port of one local interface. The neighbour
  is looked up under the filtered host name, which raises \<open>KeyError\<close> when the filter
  changed the name; the address tested and recorded is \<open>management_address\<close>, or
  \<open>management_address_v4\<close> when that is absent, and it is parsed only when there is an
  excluded network.
\<close>

definition process_lldp_connection ::
  "topology \<Rightarrow> (string \<Rightarrow> 32 word option) \<Rightarrow> string \<Rightarrow> string \<Rightarrow> lldp_port \<Rightarrow> string
     \<Rightarrow> device_list \<Rightarrow> ip_network list \<Rightarrow> testbed \<Rightarrow> device_connections
     \<Rightarrow> py_error + device_list \<times> device_connections" where
  "process_lldp_connection self IPv4Address interface dest_port port device_name device_list
       exclude_networks testbed device_connections =
     (case neighbors port of
        [] \<Rightarrow> Inl IndexError
      | (first_key, _) # _ \<Rightarrow>
          (let dest_host = (case domain_filter first_key of
                              Some hostname \<Rightarrow> hostname | None \<Rightarrow> first_key) in
           if only_links self \<and> dest_host \<notin> fst ` set (devices testbed)
           then Inr (device_list, device_connections)
           else if py_in interface (exclude_interfaces self)
           then Inr (device_list, device_connections)
           else if py_in dest_port (exclude_interfaces self)
           then Inr (device_list, device_connections)
           else
             (case map_of (neighbors port) dest_host of
                None \<Rightarrow> Inl KeyError
              | Some neighbor \<Rightarrow>
                  (let ip_address = (case management_address neighbor of
                                       None \<Rightarrow> management_address_v4 neighbor
                                     | Some a \<Rightarrow> Some a) in
                   case (case ip_address of
                           None \<Rightarrow> Inr False
                         | Some ip_text \<Rightarrow>
                             in_excluded_network IPv4Address
                               (map (Pair ip_text) exclude_networks)) of
                     Inl e \<Rightarrow> Inl e
                   | Inr stop \<Rightarrow>
                       if stop then Inr (device_list, device_connections)
                       else
                         (let os_guess = get_os (system_description neighbor) [] in
                          case add_to_device_list device_list dest_host dest_port {}
                                 {ip_address} os_guess device_name interface of
                            Inl e \<Rightarrow> Inl e
                          | Inr device_list' \<Rightarrow>
                              Inr (device_list',
                                   add_to_device_connections device_connections dest_host
                                     dest_port interface device_name))))))"

fun process_lldp_entries ::
  "topology \<Rightarrow> (string \<Rightarrow> 32 word option) \<Rightarrow> (string \<times> string \<times> lldp_port) list \<Rightarrow> string
     \<Rightarrow> device_list \<Rightarrow> ip_network list \<Rightarrow> testbed \<Rightarrow> device_connections
     \<Rightarrow> py_error + device_list \<times> device_connections" where
  "process_lldp_entries self IPv4Address [] device_name device_list exclude_networks testbed
       device_connections = Inr (device_list, device_connections)"
| "process_lldp_entries self IPv4Address ((interface, dest_port, port) # rest) device_name
       device_list exclude_networks testbed device_connections =
     (case process_lldp_connection self IPv4Address interface dest_port port device_name
             device_list exclude_networks testbed device_connections of
        Inl e \<Rightarrow> Inl e
      | Inr (device_list', device_connections') \<Rightarrow>
          process_lldp_entries self IPv4Address rest device_name device_list' exclude_networks
            testbed device_connections')"

text \<open>The two nested loops visit the remote ports interface by interface.\<close>

definition process_lldp_information ::
  "topology \<Rightarrow> (string \<Rightarrow> 32 word option) \<Rightarrow> lldp_result \<Rightarrow> string \<Rightarrow> device_list
     \<Rightarrow> ip_network list \<Rightarrow> testbed \<Rightarrow> device_connections
     \<Rightarrow> py_error + device_list \<times> device_connections" where
  "process_lldp_information self IPv4Address result device_name device_list exclude_networks
       testbed device_connections =
     process_lldp_entries self IPv4Address
       (concat (map (\<lambda>(interface, connection).
                       map (\<lambda>(dest_port, port). (interface, dest_port, port))
                         (lldp_port_id connection))
                  (interfaces result)))
       device_name device_list exclude_networks testbed device_connections"

subsection \<open>\<open>get_device_connections\<close> and \<open>process_neighbor_data\<close>\<close>

text \<open>
  The statements of \<open>get_device_connections\<close> up to its end: the registry and the
  connection dictionary \<open>device_connections\<close>, which starts empty, after the CDP and the
  LLDP data of one device.
\<close>

definition device_connections_built ::
  "topology \<Rightarrow> (string \<Rightarrow> 32 word option) \<Rightarrow> neighbor_data \<Rightarrow> string \<Rightarrow> device_list
     \<Rightarrow> ip_network list \<Rightarrow> testbed \<Rightarrow> py_error + device_list \<times> device_connections" where
  "device_connections_built self IPv4Address data device_name device_list exclude_networks
       testbed =
     (case (case cdp data of
              None \<Rightarrow> Inr (device_list, [])
            | Some result \<Rightarrow>
                process_cdp_information self IPv4Address result device_name device_list
                  exclude_networks testbed []) of
        Inl e \<Rightarrow> Inl e
      | Inr (device_list', device_connections) \<Rightarrow>
          (case lldp data of
             None \<Rightarrow> Inr (device_list', device_connections)
           | Some result \<Rightarrow>
               if total_entries result \<noteq> 0
               then process_lldp_information self IPv4Address result device_name device_list'
                      exclude_networks testbed device_connections
               else Inr (device_list', device_connections)))"

text \<open>
  The function ends without a \<open>return\<close> statement (the one it had is commented out), so
  its value is Python's \<open>None\<close>; the registry is changed in place.
\<close>

definition get_device_connections ::
  "topology \<Rightarrow> (string \<Rightarrow> 32 word option) \<Rightarrow> neighbor_data \<Rightarrow> string \<Rightarrow> device_list
     \<Rightarrow> ip_network list \<Rightarrow> testbed
     \<Rightarrow> py_error + device_list \<times> device_connections option" where
  "get_device_connections self IPv4Address data device_name device_list exclude_networks
       testbed =
     (case device_connections_built self IPv4Address data device_name device_list
             exclude_networks testbed of
        Inl e \<Rightarrow> Inl e
      | Inr (device_list', device_connections) \<Rightarrow> Inr (device_list', None))"

type_synonym connection_dict = "(string \<times> device_connections option) list"

text \<open>
  \<open>result\<close> is a list of dicts from a device name to that device's data; the inner loop
  runs over one of them.
\<close>

fun process_entry ::
  "topology \<Rightarrow> (string \<Rightarrow> 32 word option) \<Rightarrow> testbed \<Rightarrow> ip_network list
     \<Rightarrow> (string \<times> neighbor_data) list \<Rightarrow> device_list \<Rightarrow> connection_dict
     \<Rightarrow> py_error + device_list \<times> connection_dict" where
  "process_entry self IPv4Address testbed exclude_networks [] device_list conn_dict =
     Inr (device_list, conn_dict)"
| "process_entry self IPv4Address testbed exclude_networks ((device, data) # rest) device_list
       conn_dict =
     (case get_device_connections self IPv4Address data device device_list exclude_networks
             testbed of
        Inl e \<Rightarrow> Inl e
      | Inr (device_list', returned) \<Rightarrow>
          process_entry self IPv4Address testbed exclude_networks rest device_list'
            (AList.update device returned conn_dict))"

fun process_entries ::
  "topology \<Rightarrow> (string \<Rightarrow> 32 word option) \<Rightarrow> testbed \<Rightarrow> ip_network list
     \<Rightarrow> (string \<times> neighbor_data) list list \<Rightarrow> device_list \<Rightarrow> connection_dict
     \<Rightarrow> py_error + device_list \<times> connection_dict" where
  "process_entries self IPv4Address testbed exclude_networks [] device_list conn_dict =
     Inr (device_list, conn_dict)"
| "process_entries self IPv4Address testbed exclude_networks (entry # rest) device_list
       conn_dict =
     (case process_entry self IPv4Address testbed exclude_networks entry device_list
             conn_dict of
        Inl e \<Rightarrow> Inl e
      | Inr (device_list', conn_dict') \<Rightarrow>
          process_entries self IPv4Address testbed exclude_networks rest device_list'
            conn_dict')"

definition process_neighbor_data ::
  "topology \<Rightarrow> (string \<Rightarrow> 32 word option) \<Rightarrow> testbed \<Rightarrow> device_list \<Rightarrow> ip_network list
     \<Rightarrow> (string \<times> neighbor_data) list list \<Rightarrow> py_error + device_list \<times> connection_dict" where
  "process_neighbor_data self IPv4Address testbed device_list exclude_networks result =
     process_entries self IPv4Address testbed exclude_networks result device_list []"

subsection \<open>Links: \<open>_write_connections_to_testbed\<close>\<close>

text \<open>
  What the code uses of the topology library. \<open>testbed.devices[dev].interfaces[name]\<close>
  raises \<open>KeyError\<close> for an unknown device or interface. \<open>link.connect_interface\<close>
  appends the interface to the link's list and points the interface at the link;
  \<open>Link(name, interfaces=int_list)\<close> makes a new link object and connects the listed
  interfaces in order; \<open>testbed.links\<close> is the set of the links that the interfaces of
  the testbed's devices point at, and reading it raises \<open>DuplicateLinkError\<close> when two of
  these links have the same name. References to links are positions in the store that
  exist, as object references do.
\<close>

definition get_interface :: "testbed \<Rightarrow> string \<Rightarrow> string \<Rightarrow> py_error + interface" where
  "get_interface testbed dev name =
     (case map_of (devices testbed) dev of
        None \<Rightarrow> Inl KeyError
      | Some d \<Rightarrow> (case map_of (dev_interfaces d) name of
                    None \<Rightarrow> Inl KeyError
                  | Some i \<Rightarrow> Inr i))"

definition set_interface_link :: "testbed \<Rightarrow> string \<times> string \<Rightarrow> nat \<Rightarrow> testbed" where
  "set_interface_link testbed intf link_id =
     testbed\<lparr>devices :=
       map (\<lambda>(dev, d).
              if dev = fst intf
              then (dev, d\<lparr>dev_interfaces :=
                             map (\<lambda>(name, i). if name = snd intf
                                               then (name, i\<lparr>link := Some link_id\<rparr>)
                                               else (name, i))
                               (dev_interfaces d)\<rparr>)
              else (dev, d))
         (devices testbed)\<rparr>"

definition connect_interface :: "testbed \<Rightarrow> nat \<Rightarrow> string \<times> string \<Rightarrow> testbed" where
  "connect_interface testbed link_id intf =
     (let l = link_store testbed ! link_id in
      set_interface_link
        (testbed\<lparr>link_store :=
           (link_store testbed)[link_id := l\<lparr>link_interfaces := link_interfaces l @ [intf]\<rparr>]\<rparr>)
        intf link_id)"

definition new_link :: "testbed \<Rightarrow> string \<Rightarrow> (string \<times> string) list \<Rightarrow> testbed" where
  "new_link testbed name int_list =
     foldl (\<lambda>t intf. connect_interface t (length (link_store testbed)) intf)
       (testbed\<lparr>link_store := link_store testbed @ [\<lparr>link_name = name, link_interfaces = []\<rparr>]\<rparr>)
       int_list"

definition testbed_links :: "testbed \<Rightarrow> py_error + nat list" where
  "testbed_links testbed =
     (let links =
            remdups (concat (map (\<lambda>(dev, d).
                                    concat (map (\<lambda>(name, i).
                                                   case link i of None \<Rightarrow> [] | Some l \<Rightarrow> [l])
                                              (dev_interfaces d)))
                               (devices testbed)))
      in if distinct (map (\<lambda>l. link_name (link_store testbed ! l)) links) then Inr links
         else Inl DuplicateLinkError)"

text \<open>The decimal digits that \<open>'Link_{num}'.format(num=...)\<close> puts for \<open>num\<close>.\<close>

definition digit_char :: "nat \<Rightarrow> char" where
  "digit_char d = char_of (of_char (CHR ''0'') + d)"

fun format_num :: "nat \<Rightarrow> string" where
  "format_num num =
     (if 10 \<le> num then format_num (num div 10) @ [digit_char (num mod 10)]
      else [digit_char num])"

declare format_num.simps [simp del]

text \<open>The loop that builds \<open>int_list\<close> for an interface with no link.\<close>

fun collect_interfaces ::
  "testbed \<Rightarrow> conn_entry list \<Rightarrow> (string \<times> string) list \<Rightarrow> py_error + (string \<times> string) list" where
  "collect_interfaces testbed [] int_list = Inr int_list"
| "collect_interfaces testbed (entry # entries) int_list =
     (let dev = entry_host entry; dest_int = entry_port entry in
      case get_interface testbed dev dest_int of
        Inl e \<Rightarrow> Inl e
      | Inr _ \<Rightarrow>
          collect_interfaces testbed entries
            (if (dev, dest_int) \<notin> set int_list then int_list @ [(dev, dest_int)] else int_list))"

text \<open>The loop that extends the link of an interface that has one.\<close>

fun extend_link :: "testbed \<Rightarrow> nat \<Rightarrow> conn_entry list \<Rightarrow> py_error + testbed" where
  "extend_link testbed link_id [] = Inr testbed"
| "extend_link testbed link_id (entry # entries) =
     (let dev = entry_host entry; dest_int = entry_port entry in
      case get_interface testbed dev dest_int of
        Inl e \<Rightarrow> Inl e
      | Inr _ \<Rightarrow>
          extend_link
            (if (dev, dest_int) \<notin> set (link_interfaces (link_store testbed ! link_id))
             then connect_interface testbed link_id (dev, dest_int) else testbed)
            link_id entries)"

definition write_interface_connections ::
  "string \<Rightarrow> string \<Rightarrow> conn_entry list \<Rightarrow> testbed \<Rightarrow> py_error + testbed" where
  "write_interface_connections device interface_name entries testbed =
     (case get_interface testbed device interface_name of
        Inl e \<Rightarrow> Inl e
      | Inr interface \<Rightarrow>
          (case link interface of
             None \<Rightarrow>
               (case collect_interfaces testbed entries [(device, interface_name)] of
                  Inl e \<Rightarrow> Inl e
                | Inr int_list \<Rightarrow>
                    (case testbed_links testbed of
                       Inl e \<Rightarrow> Inl e
                     | Inr links \<Rightarrow>
                         Inr (new_link testbed (''Link_'' @ format_num (length links))
                                int_list)))
           | Some link_id \<Rightarrow> extend_link testbed link_id entries))"

fun write_device_connections ::
  "string \<Rightarrow> device_connections \<Rightarrow> testbed \<Rightarrow> py_error + testbed" where
  "write_device_connections device [] testbed = Inr testbed"
| "write_device_connections device ((interface_name, entries) # rest) testbed =
     (case write_interface_connections device interface_name entries testbed of
        Inl e \<Rightarrow> Inl e
      | Inr testbed' \<Rightarrow> write_device_connections device rest testbed')"

text \<open>Iterating a device's value that is \<open>None\<close> raises \<open>TypeError\<close>.\<close>

fun write_connections_to_testbed :: "connection_dict \<Rightarrow> testbed \<Rightarrow> py_error + testbed" where
  "write_connections_to_testbed [] testbed = Inr testbed"
| "write_connections_to_testbed ((device, None) # rest) testbed = Inl TypeError"
| "write_connections_to_testbed ((device, Some device_connections) # rest) testbed =
     (case write_device_connections device device_connections testbed of
        Inl e \<Rightarrow> Inl e
      | Inr testbed' \<Rightarrow> write_connections_to_testbed rest testbed')"

text \<open>The links that an interface is a member of, by the links' own lists.\<close>

definition links_of :: "testbed \<Rightarrow> string \<times> string \<Rightarrow> nat list" where
  "links_of testbed intf =
     filter (\<lambda>l. intf \<in> set (link_interfaces (link_store testbed ! l)))
       [0 ..< length (link_store testbed)]"

subsection \<open>\<open>write_proxy_chain\<close>\<close>

text \<open>
  The search loop over the finder's connections: the first connection other than
  \<open>defaults\<close> whose protocol is \<open>ssh\<close> and that has the key \<open>proxy\<close> gives the proxy
  value and the address. Reading the attribute \<open>protocol\<close> or \<open>ip\<close> of a connection
  that lacks it raises \<open>AttributeError\<close>. When the loop ends without a \<open>break\<close> the
  \<open>else\<close> clause sets \<open>new_proxy = None\<close>.
\<close>

fun find_ssh_proxy ::
  "(string \<times> connection) list \<Rightarrow> py_error + (proxy_value \<times> string) option" where
  "find_ssh_proxy [] = Inr None"
| "find_ssh_proxy ((conn, connection_detail) # rest) =
     (if conn = ''defaults'' then find_ssh_proxy rest
      else
        (case protocol connection_detail of
           None \<Rightarrow> Inl AttributeError
         | Some p \<Rightarrow>
             if p = ''ssh'' \<and> proxy connection_detail \<noteq> None then
               (case conn_address connection_detail of
                  None \<Rightarrow> Inl AttributeError
                | Some conn_ip \<Rightarrow> Inr (Some (the (proxy connection_detail), conn_ip)))
             else find_ssh_proxy rest))"

type_synonym credentials = "(string \<times> (string \<times> string) list) list"

text \<open>
  The value returned is the finder's name, a list (a reference into the store) or, when
  the proxy value is neither a list nor a string, Python's \<open>None\<close>. For a list found as
  the proxy value, \<open>new_proxy[-1]['command'] = ...\<close> assigns into the step dict that the
  last position refers to, \<open>new_proxy.append\<close> puts a reference to a new step dict at the
  end of that same list, and the list itself is returned; for a proxy name a new list of
  two new step dicts is made. A reference held by a connection or a list is a position of
  its store that exists.
\<close>

definition write_proxy_chain ::
  "string \<Rightarrow> testbed \<Rightarrow> credentials \<Rightarrow> string \<Rightarrow> py_error + proxy_value \<times> testbed" where
  "write_proxy_chain finder_name testbed credentials ip_text =
     (case map_of (devices testbed) finder_name of
        None \<Rightarrow> Inl KeyError
      | Some finder_device \<Rightarrow>
          (case map_of credentials ''default'' of
             None \<Rightarrow> Inl KeyError
           | Some default_credential \<Rightarrow>
               (case map_of default_credential ''username'' of
                  None \<Rightarrow> Inl KeyError
                | Some user \<Rightarrow>
                    (case find_ssh_proxy (connections finder_device) of
                       Inl e \<Rightarrow> Inl e
                     | Inr None \<Rightarrow> Inr (ProxyName finder_name, testbed)
                     | Inr (Some (ProxyNone, conn_ip)) \<Rightarrow> Inr (ProxyName finder_name, testbed)
                     | Inr (Some (ProxyList r, conn_ip)) \<Rightarrow>
                         (let new_proxy = proxy_store testbed ! r in
                          if new_proxy = [] then Inl IndexError
                          else
                            (let rewritten =
                                   (step_store testbed)
                                     [last new_proxy :=
                                        (step_store testbed ! last new_proxy)
                                          \<lparr>step_command := ''ssh '' @ user @ ''@'' @ conn_ip\<rparr>]
                             in Inr (ProxyList r,
                                     testbed\<lparr>proxy_store :=
                                               (proxy_store testbed)
                                                 [r := new_proxy @ [length rewritten]],
                                             step_store :=
                                               rewritten
                                                 @ [\<lparr>step_device = finder_name,
                                                     step_command =
                                                       ''ssh '' @ user @ ''@'' @ ip_text\<rparr>]\<rparr>)))
                     | Inr (Some (ProxyName name, conn_ip)) \<Rightarrow>
                         Inr (ProxyList (length (proxy_store testbed)),
                              testbed\<lparr>proxy_store :=
                                        proxy_store testbed
                                          @ [[length (step_store testbed),
                                              Suc (length (step_store testbed))]],
                                      step_store :=
                                        step_store testbed
                                          @ [\<lparr>step_device = name,
                                              step_command = ''ssh '' @ conn_ip\<rparr>,
                                             \<lparr>step_device = finder_name,
                                              step_command = ''ssh '' @ user @ ''@'' @ ip_text\<rparr>]\<rparr>)
                     | Inr (Some (ProxyOther, conn_ip)) \<Rightarrow> Inr (ProxyNone, testbed)))))"

text \<open>The steps of a stored proxy list, read through its references.\<close>

definition chain_steps :: "testbed \<Rightarrow> nat \<Rightarrow> proxy_step list" where
  "chain_steps testbed r = map (\<lambda>step. step_store testbed ! step) (proxy_store testbed ! r)"

subsection \<open>Candidate addresses of an adjacency\<close>

text \<open>
  The addresses that the code would record for an adjacency: for CDP the keys of the two
  address fields, for LLDP the one address of the neighbour entry that the code reads
  (the entry under the filtered name of the first key).
\<close>

definition cdp_candidate_addresses :: "cdp_entry \<Rightarrow> string set" where
  "cdp_candidate_addresses connection =
     (case interface_addresses connection of None \<Rightarrow> {} | Some l \<Rightarrow> set l)
     \<union> (case management_addresses connection of None \<Rightarrow> {} | Some l \<Rightarrow> set l)"

definition lldp_neighbor_read :: "lldp_port \<Rightarrow> lldp_neighbor option" where
  "lldp_neighbor_read port =
     (case neighbors port of
        [] \<Rightarrow> None
      | (first_key, _) # _ \<Rightarrow>
          map_of (neighbors port)
            (case domain_filter first_key of Some hostname \<Rightarrow> hostname | None \<Rightarrow> first_key))"

definition lldp_candidate_address :: "lldp_neighbor \<Rightarrow> string option" where
  "lldp_candidate_address neighbor =
     (case management_address neighbor of
        None \<Rightarrow> management_address_v4 neighbor
      | Some a \<Rightarrow> Some a)"

definition lies_in_excluded ::
  "(string \<Rightarrow> 32 word option) \<Rightarrow> ip_network list \<Rightarrow> string \<Rightarrow> bool" where
  "lies_in_excluded IPv4Address exclude_networks ip_text =
     (case IPv4Address ip_text of
        None \<Rightarrow> False
      | Some address \<Rightarrow> list_ex (in_network address) exclude_networks)"

subsection \<open>Example data\<close>

text \<open>
  The scenarios of the specification: \<open>R1\<close> reports the neighbour \<open>R2.example.com\<close> on
  its \<open>Ethernet0/1\<close>, remote port \<open>Ethernet0/2\<close>, at the address \<open>192.168.1.5\<close>, once
  by CDP and once by LLDP; the excluded range is \<open>192.168.1.0/24\<close>.
\<close>

definition example_cdp_entry :: cdp_entry where
  "example_cdp_entry =
     \<lparr>system_name = Some ''R2.example.com'', device_id = Some ''R2.example.com'',
      port_id = ''Ethernet0/2'', local_interface = ''Ethernet0/1'',
      management_addresses = Some [''192.168.1.5''], interface_addresses = Some [],
      software_version = ''Cisco IOS Software, C2960'', platform = ''cisco WS-C2960''\<rparr>"

definition example_lldp_port :: lldp_port where
  "example_lldp_port =
     \<lparr>neighbors = [(''R2'', \<lparr>management_address = Some ''192.168.1.5'',
                              management_address_v4 = None,
                              system_description = ''Cisco IOS Software, C2960''\<rparr>)]\<rparr>"

definition example_network :: ip_network where
  "example_network = IPv4Network 0xC0A80100 0xFFFFFF00"

definition example_testbed :: testbed where
  "example_testbed =
     \<lparr>devices = [(''R1'', \<lparr>dev_interfaces = [(''Ethernet0/1'', \<lparr>link = None\<rparr>)],
                          connections = []\<rparr>)],
      link_store = [], proxy_store = [], step_store = []\<rparr>"

text \<open>What polling \<open>R1\<close> returned: the neighbour, seen by both protocols.\<close>

definition example_data :: neighbor_data where
  "example_data =
     \<lparr>cdp = Some \<lparr>index = [(1, example_cdp_entry)]\<rparr>,
      lldp = Some \<lparr>total_entries = 1,
                   interfaces = [(''Ethernet0/1'',
                                  \<lparr>lldp_port_id = [(''Ethernet0/2'', example_lldp_port)]\<rparr>)]\<rparr>\<rparr>"

text \<open>Three routers with one interface each and no link yet.\<close>

definition three_routers :: testbed where
  "three_routers =
     \<lparr>devices = [(''R1'', \<lparr>dev_interfaces = [(''e1'', \<lparr>link = None\<rparr>)], connections = []\<rparr>),
                 (''R2'', \<lparr>dev_interfaces = [(''e2'', \<lparr>link = None\<rparr>)], connections = []\<rparr>),
                 (''R3'', \<lparr>dev_interfaces = [(''e3'', \<lparr>link = None\<rparr>)], connections = []\<rparr>)],
      link_store = [], proxy_store = [], step_store = []\<rparr>"

text \<open>
  \<open>R2\<close> reports \<open>R3\<close> on its \<open>e2\<close>, and \<open>R1\<close> reports \<open>R2\<close>'s \<open>e2\<close> on its \<open>e1\<close>; the
  second dictionary has the same two facts with \<open>R1\<close> first.
\<close>

definition example_connections :: connection_dict where
  "example_connections =
     [(''R2'', Some [(''e2'', [\<lparr>entry_host = ''R3'', entry_port = ''e3''\<rparr>])]),
      (''R1'', Some [(''e1'', [\<lparr>entry_host = ''R2'', entry_port = ''e2''\<rparr>])])]"

definition example_connections_reordered :: connection_dict where
  "example_connections_reordered =
     [(''R1'', Some [(''e1'', [\<lparr>entry_host = ''R2'', entry_port = ''e2''\<rparr>])]),
      (''R2'', Some [(''e2'', [\<lparr>entry_host = ''R3'', entry_port = ''e3''\<rparr>])])]"

definition two_links :: testbed where
  "two_links =
     \<lparr>devices = [(''R1'', \<lparr>dev_interfaces = [(''e1'', \<lparr>link = Some 1\<rparr>)], connections = []\<rparr>),
                 (''R2'', \<lparr>dev_interfaces = [(''e2'', \<lparr>link = Some 1\<rparr>)], connections = []\<rparr>),
                 (''R3'', \<lparr>dev_interfaces = [(''e3'', \<lparr>link = Some 0\<rparr>)], connections = []\<rparr>)],
      link_store = [\<lparr>link_name = ''Link_0'', link_interfaces = [(''R2'', ''e2''), (''R3'', ''e3'')]\<rparr>,
                    \<lparr>link_name = ''Link_1'', link_interfaces = [(''R1'', ''e1''), (''R2'', ''e2'')]\<rparr>],
      proxy_store = [], step_store = []\<rparr>"

definition one_link :: testbed where
  "one_link =
     \<lparr>devices = [(''R1'', \<lparr>dev_interfaces = [(''e1'', \<lparr>link = Some 0\<rparr>)], connections = []\<rparr>),
                 (''R2'', \<lparr>dev_interfaces = [(''e2'', \<lparr>link = Some 0\<rparr>)], connections = []\<rparr>),
                 (''R3'', \<lparr>dev_interfaces = [(''e3'', \<lparr>link = Some 0\<rparr>)], connections = []\<rparr>)],
      link_store = [\<lparr>link_name = ''Link_0'',
                     link_interfaces = [(''R1'', ''e1''), (''R2'', ''e2''), (''R3'', ''e3'')]\<rparr>],
      proxy_store = [], step_store = []\<rparr>"

text \<open>
  The connections of the finder \<open>R1\<close>: the \<open>defaults\<close> entry, a telnet connection with
  a proxy, an ssh connection without the key \<open>proxy\<close>, the ssh connection \<open>cli\<close> at
  \<open>10.0.0.1\<close> with the given proxy value, and a later ssh connection with another proxy.
\<close>

definition finder_connections :: "proxy_value \<Rightarrow> (string \<times> connection) list" where
  "finder_connections via =
     [(''defaults'', \<lparr>protocol = None, conn_address = None, proxy = None\<rparr>),
      (''console'', \<lparr>protocol = Some ''telnet'', conn_address = Some ''10.0.0.5'',
                     proxy = Some (ProxyName ''term1'')\<rparr>),
      (''mgmt'', \<lparr>protocol = Some ''ssh'', conn_address = Some ''10.0.0.9'', proxy = None\<rparr>),
      (''cli'', \<lparr>protocol = Some ''ssh'', conn_address = Some ''10.0.0.1'', proxy = Some via\<rparr>),
      (''vty'', \<lparr>protocol = Some ''ssh'', conn_address = Some ''10.0.0.7'',
                 proxy = Some (ProxyName ''jumpT'')\<rparr>)]"

text \<open>
  A testbed with that finder and the given stores of proxy lists and steps; the finder's
  default user is \<open>admin\<close>.
\<close>

definition proxied_finder :: "proxy_value \<Rightarrow> nat list list \<Rightarrow> proxy_step list \<Rightarrow> testbed" where
  "proxied_finder via stored_lists stored_steps =
     \<lparr>devices = [(''R1'', \<lparr>dev_interfaces = [], connections = finder_connections via\<rparr>)],
      link_store = [], proxy_store = stored_lists, step_store = stored_steps\<rparr>"

definition example_credentials :: credentials where
  "example_credentials = [(''default'', [(''username'', ''admin''), (''password'', ''secret'')])]"

section \<open>Properties\<close>

subsection \<open>Substrings\<close>

lemma py_in_iff: "py_in sub s \<longleftrightarrow> (\<exists>pre post. s = pre @ sub @ post)"
proof (induction s)
  case Nil
  then show ?case by auto
next
  case (Cons c cs)
  have "take (length sub) (c # cs) = sub \<longleftrightarrow> (\<exists>post. c # cs = sub @ post)"
    by (metis append_eq_conv_conj append_take_drop_id)
  moreover have "(\<exists>pre post. c # cs = pre @ sub @ post) \<longleftrightarrow>
      (\<exists>post. c # cs = sub @ post) \<or> (\<exists>pre post. cs = pre @ sub @ post)"
  proof
    assume "\<exists>pre post. c # cs = pre @ sub @ post"
    then obtain pre post where e: "c # cs = pre @ sub @ post" by blast
    show "(\<exists>post. c # cs = sub @ post) \<or> (\<exists>pre post. cs = pre @ sub @ post)"
    proof (cases pre)
      case Nil
      with e show ?thesis by auto
    next
      case (Cons p ps)
      with e have "cs = ps @ sub @ post" by simp
      then show ?thesis by blast
    qed
  next
    assume "(\<exists>post. c # cs = sub @ post) \<or> (\<exists>pre post. cs = pre @ sub @ post)"
    then show "\<exists>pre post. c # cs = pre @ sub @ post"
    proof
      assume "\<exists>post. c # cs = sub @ post"
      then show ?thesis by (metis append_Nil)
    next
      assume "\<exists>pre post. cs = pre @ sub @ post"
      then obtain pre post where "cs = pre @ sub @ post" by blast
      then have "c # cs = (c # pre) @ sub @ post" by simp
      then show ?thesis by blast
    qed
  qed
  ultimately show ?case using Cons.IH by simp
qed

lemma appears_py_in:
  "appears m s p \<longleftrightarrow> py_in m s \<or> py_in m p"
  unfolding appears_def py_in_iff by blast

subsection \<open>C6: operating-system inference\<close>

text \<open>
  C6. For every pair of free-text fields, \<open>get_os\<close> returns \<open>iosxe\<close> when "IOS" and "XE"
  each appear in either field; otherwise \<open>iosxr\<close> when "IOS" and "XR" appear; otherwise
  \<open>ios\<close> when "IOS" appears; \<open>nxos\<close> when "NX-OS" appears, tested by a statement of its
  own, outside the IOS branch, that is reached exactly when "IOS" does not appear (the IOS
  branch always returns); and \<open>None\<close> when no marker appears.
\<close>

theorem get_os_precedence:
  "get_os s p =
     (if appears ''IOS'' s p \<and> appears ''XE'' s p then Some ''iosxe''
      else if appears ''IOS'' s p \<and> appears ''XR'' s p then Some ''iosxr''
      else if appears ''IOS'' s p then Some ''ios''
      else if appears ''NX-OS'' s p then Some ''nxos''
      else None)"
  unfolding appears_py_in get_os_def by simp

theorem get_os_precedence_witness:
  "get_os ''Cisco IOS Software [Everest], Catalyst L3 Switch'' ''cisco WS-C3850 IOS-XE'' = Some ''iosxe''
   \<and> get_os ''Cisco IOS XR Software'' '''' = Some ''iosxr''
   \<and> get_os ''Cisco IOS Software, 7200 Software'' ''Cisco 7206VXR'' = Some ''iosxr''
   \<and> get_os ''Cisco IOS Software, C2960'' ''cisco WS-C2960'' = Some ''ios''
   \<and> get_os ''Cisco Nexus Operating System (NX-OS) Software'' ''N9K-9000v'' = Some ''nxos''
   \<and> get_os ''Cisco IOS Software with NX-OS tools'' [] = Some ''ios''
   \<and> get_os ''Linux'' ''x86'' = None"
  using get_os_precedence [of "''Linux''" "''x86''"]
  by (simp add: get_os_def)

subsection \<open>C4: the connection ledger holds one entry per fact\<close>

lemma conn_entry_match:
  "(\<exists>entry \<in> set es. entry_host entry = h \<and> entry_port entry = p)
     \<longleftrightarrow> \<lparr>entry_host = h, entry_port = p\<rparr> \<in> set es"
  by (metis (full_types) conn_entry.select_convs(1,2) conn_entry.surjective old.unit.exhaust)

lemma entries_for_add:
  "entries_for (add_to_device_connections dc h p i dev) j =
     (if j = i then
        (if \<lparr>entry_host = h, entry_port = p\<rparr> \<in> set (entries_for dc i) then entries_for dc i
         else entries_for dc i @ [\<lparr>entry_host = h, entry_port = p\<rparr>])
      else entries_for dc j)"
  by (simp add: add_to_device_connections_def entries_for_def conn_entry_match
      update_conv' split: option.splits)

lemma add_twice:
  "add_to_device_connections (add_to_device_connections dc h p i dev) h p i dev' =
     add_to_device_connections dc h p i dev"
proof -
  have "\<lparr>entry_host = h, entry_port = p\<rparr>
          \<in> set (entries_for (add_to_device_connections dc h p i dev) i)"
    by (simp add: entries_for_add)
  moreover have "map_of (add_to_device_connections dc h p i dev) i \<noteq> None"
    by (auto simp: add_to_device_connections_def Let_def conn_entry_match update_conv'
        split: option.splits)
  ultimately show ?thesis
    by (auto simp: add_to_device_connections_def [of "add_to_device_connections dc h p i dev"]
        Let_def conn_entry_match entries_for_def split: option.splits)
qed

lemma count_list_distinct_member:
  "distinct xs \<Longrightarrow> x \<in> set xs \<Longrightarrow> count_list xs x = 1"
  by (induction xs) auto

lemma add_present:
  assumes "\<lparr>entry_host = h, entry_port = p\<rparr> \<in> set (entries_for dc i)"
  shows "add_to_device_connections dc h p i dev = dc"
proof -
  from assms obtain es where "map_of dc i = Some es" "\<lparr>entry_host = h, entry_port = p\<rparr> \<in> set es"
    by (cases "map_of dc i") (auto simp: entries_for_def)
  then show ?thesis
    by (simp add: add_to_device_connections_def conn_entry_match)
qed

lemma record_all_distinct:
  "(\<And>j. distinct (entries_for dc j)) \<Longrightarrow> distinct (entries_for (record_all dc facts dev) j)"
proof (induction dc facts dev arbitrary: j rule: record_all.induct)
  case (1 dc dev)
  then show ?case by simp
next
  case (2 dc interface host port facts dev)
  have "\<And>k. distinct (entries_for (add_to_device_connections dc host port interface dev) k)"
    using "2.prems" by (simp add: entries_for_add)
  then show ?case using "2.IH" by simp
qed

lemma record_all_keeps:
  "e \<in> set (entries_for dc j) \<Longrightarrow> e \<in> set (entries_for (record_all dc facts dev) j)"
proof (induction dc facts dev rule: record_all.induct)
  case (1 dc dev)
  then show ?case by simp
next
  case (2 dc interface host port facts dev)
  from "2.prems" have "e \<in> set (entries_for (add_to_device_connections dc host port interface dev) j)"
    by (auto simp: entries_for_add)
  then show ?case using "2.IH" by simp
qed

lemma record_all_member:
  "(i, h, p) \<in> set facts \<Longrightarrow>
     \<lparr>entry_host = h, entry_port = p\<rparr> \<in> set (entries_for (record_all dc facts dev) i)"
proof (induction dc facts dev rule: record_all.induct)
  case (1 dc dev)
  then show ?case by simp
next
  case (2 dc interface host port facts dev)
  show ?case
  proof (cases "(i, h, p) = (interface, host, port)")
    case True
    have "\<lparr>entry_host = h, entry_port = p\<rparr>
            \<in> set (entries_for (add_to_device_connections dc host port interface dev) i)"
      using True by (simp add: entries_for_add)
    then show ?thesis by (simp add: record_all_keeps)
  next
    case False
    with "2.prems" have "(i, h, p) \<in> set facts" by auto
    then show ?thesis using "2.IH" by simp
  qed
qed

text \<open>
  C4. Calling \<open>add_to_device_connections\<close> a second time with the same
  \<open>(localInterface, remoteHost, remotePort)\<close> on any dictionary changes nothing; and in a
  dictionary built from the empty one by any sequence of calls, however often a fact is
  repeated in it, every recorded fact has exactly one entry under its interface, and
  recording it once more changes nothing.
\<close>

theorem add_to_device_connections_once:
  assumes "(i, h, p) \<in> set facts"
  shows "add_to_device_connections (add_to_device_connections dc h p i dev) h p i dev
           = add_to_device_connections dc h p i dev
         \<and> count_list (entries_for (record_all [] facts dev) i) \<lparr>entry_host = h, entry_port = p\<rparr> = 1
         \<and> add_to_device_connections (record_all [] facts dev) h p i dev = record_all [] facts dev"
proof -
  let ?e = "\<lparr>entry_host = h, entry_port = p\<rparr>"
  have m: "?e \<in> set (entries_for (record_all [] facts dev) i)"
    using assms by (rule record_all_member)
  have d: "distinct (entries_for (record_all [] facts dev) i)"
    by (rule record_all_distinct) (simp add: entries_for_def)
  from m d have "count_list (entries_for (record_all [] facts dev) i) ?e = 1"
    by (simp add: count_list_distinct_member)
  then show ?thesis using m by (simp add: add_twice add_present)
qed

theorem add_to_device_connections_once_witness:
  "(''Ethernet0/1'', ''R2'', ''Ethernet0/2'')
      \<in> set [(''Ethernet0/1'', ''R2'', ''Ethernet0/2''), (''Ethernet0/1'', ''R3'', ''Ethernet0/0''),
              (''Ethernet0/1'', ''R2'', ''Ethernet0/2'')]
   \<and> record_all [] [(''Ethernet0/1'', ''R2'', ''Ethernet0/2''), (''Ethernet0/1'', ''R3'', ''Ethernet0/0''),
              (''Ethernet0/1'', ''R2'', ''Ethernet0/2'')] ''R1''
       = [(''Ethernet0/1'', [\<lparr>entry_host = ''R2'', entry_port = ''Ethernet0/2''\<rparr>,
                            \<lparr>entry_host = ''R3'', entry_port = ''Ethernet0/0''\<rparr>])]
   \<and> count_list (entries_for (record_all [] [(''Ethernet0/1'', ''R2'', ''Ethernet0/2''),
              (''Ethernet0/1'', ''R3'', ''Ethernet0/0''), (''Ethernet0/1'', ''R2'', ''Ethernet0/2'')] ''R1'')
          ''Ethernet0/1'') \<lparr>entry_host = ''R2'', entry_port = ''Ethernet0/2''\<rparr> = 1"
  using add_to_device_connections_once [of "''Ethernet0/1''" "''R2''" "''Ethernet0/2''"
      "[(''Ethernet0/1'', ''R2'', ''Ethernet0/2''), (''Ethernet0/1'', ''R3'', ''Ethernet0/0''),
        (''Ethernet0/1'', ''R2'', ''Ethernet0/2'')]" "[]" "''R1''"]
  by (simp add: add_to_device_connections_def)

subsection \<open>C5: a resolved operating system is kept\<close>

lemma add_discovering_device_os:
  assumes "add_discovering_device dl dest_host discover_name interface = Inr dl'"
      and "map_of dl h = Some f"
  shows "\<exists>f'. map_of dl' h = Some f' \<and> os f' = os f \<and> new_device f' = new_device f"
  using assms
  by (auto simp: add_discovering_device_def update_conv' split: if_splits option.splits)

lemma add_discovering_device_returns:
  assumes "map_of dl dest_host \<noteq> None"
  shows "\<exists>dl'. add_discovering_device dl dest_host discover_name interface = Inr dl'"
  using assms
  by (auto simp: add_discovering_device_def split: option.splits)

lemma add_to_device_list_os_step:
  assumes "add_to_device_list dl dest_host dest_port int_address mgmt_address os_guess
             discover_name interface = Inr dl'"
      and "map_of dl h = Some f"
  shows "\<exists>f'. map_of dl' h = Some f' \<and>
           (os f' = os f \<or>
            (os f = Some None \<and> h = dest_host \<and> new_device f \<and> os f' = Some os_guess))"
proof (cases "h = dest_host")
  case False
  show ?thesis
  proof (cases "map_of dl dest_host")
    case None
    let ?dl1 = "AList.update dest_host
               \<lparr>ports = {dest_port}, ip = Some mgmt_address, os = Some os_guess,
                finder = Some (discover_name, int_address - Option.these mgmt_address), new_device = True\<rparr> dl"
    from None assms(1) have "add_discovering_device ?dl1 dest_host discover_name interface = Inr dl'"
      by (simp add: add_to_device_list_def)
    moreover have "map_of ?dl1 h = Some f" using False assms(2) by (simp add: update_conv')
    ultimately show ?thesis using add_discovering_device_os by blast
  next
    case (Some known)
    show ?thesis
    proof (cases "new_device known")
      case nd: False
      with Some assms(1) have "dl' = AList.update dest_host (known\<lparr>ports := insert dest_port (ports known)\<rparr>) dl"
        by (simp add: add_to_device_list_def)
      then show ?thesis using False assms(2) by (simp add: update_conv')
    next
      case nd: True
      from Some nd assms(1) obtain dl1 where
        a: "add_discovering_device dl1 dest_host discover_name interface = Inr dl'"
        and b: "map_of dl1 h = Some f"
        using False assms(2)
        by (auto simp: add_to_device_list_def Let_def update_conv' split: option.splits if_splits)
      then show ?thesis using add_discovering_device_os by blast
    qed
  qed
next
  case True
  with assms(2) have k: "map_of dl dest_host = Some f" by simp
  show ?thesis
  proof (cases "new_device f")
    case nd: False
    with k assms(1) have "dl' = AList.update dest_host (f\<lparr>ports := insert dest_port (ports f)\<rparr>) dl"
      by (simp add: add_to_device_list_def)
    then show ?thesis using True by (simp add: update_conv')
  next
    case nd: True
    from k nd assms(1) obtain dl1 f1 where
      a: "add_discovering_device dl1 dest_host discover_name interface = Inr dl'"
      and b: "map_of dl1 dest_host = Some f1"
      and c: "os f1 = os f \<or> (os f = Some None \<and> os f1 = Some os_guess)"
      by (auto simp: add_to_device_list_def Let_def update_conv' split: option.splits if_splits)
    from add_discovering_device_os [OF a b] obtain f' where
      "map_of dl' dest_host = Some f'" "os f' = os f1" by blast
    then show ?thesis using c True nd by auto
  qed
qed

lemma add_to_device_list_returns:
  assumes "map_of dl dest_host = Some known" "os known \<noteq> None" "new_device known \<longrightarrow> ip known \<noteq> None"
  shows "\<exists>dl'. add_to_device_list dl dest_host dest_port int_address mgmt_address os_guess
             discover_name interface = Inr dl'"
proof (cases "new_device known")
  case False
  then show ?thesis using assms by (simp add: add_to_device_list_def)
next
  case True
  then obtain cur addrs where "os known = Some cur" "ip known = Some addrs" using assms by auto
  then show ?thesis using assms(1) True
    by (auto simp: add_to_device_list_def Let_def update_conv' intro!: add_discovering_device_returns)
qed

text \<open>
  C5. A device fact whose OS is resolved keeps it: a call of \<open>add_to_device_list\<close> for the
  same remote host, whatever the OS guess, returns and leaves the OS field as it was (the
  fact has its \<open>ip\<close> key whenever it is pending, as every fact the code creates has).
  More generally, for every host of the registry, a call that returns leaves the OS field
  unchanged unless the field was \<open>None\<close>, the host is the remote host of the call and the
  fact is pending; then the field becomes the guess.
\<close>

theorem add_to_device_list_keeps_os:
  "(map_of device_list dest_host = Some known \<and> os known = Some (Some resolved)
      \<and> (new_device known \<longrightarrow> ip known \<noteq> None)
    \<longrightarrow> (\<exists>device_list' known'.
          add_to_device_list device_list dest_host dest_port int_address mgmt_address os_guess
            discover_name interface = Inr device_list'
          \<and> map_of device_list' dest_host = Some known'
          \<and> os known' = Some (Some resolved)))
   \<and> (\<forall>host seen result.
         map_of device_list host = Some seen
         \<and> add_to_device_list device_list dest_host dest_port int_address mgmt_address os_guess
              discover_name interface = Inr result
       \<longrightarrow> (\<exists>seen'. map_of result host = Some seen'
              \<and> (os seen' = os seen
                  \<or> (os seen = Some None \<and> host = dest_host \<and> new_device seen
                      \<and> os seen' = Some os_guess))))"
proof (intro conjI impI allI)
  assume a: "map_of device_list dest_host = Some known \<and> os known = Some (Some resolved)
      \<and> (new_device known \<longrightarrow> ip known \<noteq> None)"
  then have "\<exists>device_list'. add_to_device_list device_list dest_host dest_port int_address
       mgmt_address os_guess discover_name interface = Inr device_list'"
    by (intro add_to_device_list_returns [of device_list dest_host known]) auto
  then obtain device_list' where r:
    "add_to_device_list device_list dest_host dest_port int_address mgmt_address os_guess
       discover_name interface = Inr device_list'" by blast
  from add_to_device_list_os_step [OF r] a obtain known' where
    "map_of device_list' dest_host = Some known'" "os known' = Some (Some resolved)"
    by fastforce
  with r show "\<exists>device_list' known'.
          add_to_device_list device_list dest_host dest_port int_address mgmt_address os_guess
            discover_name interface = Inr device_list'
          \<and> map_of device_list' dest_host = Some known'
          \<and> os known' = Some (Some resolved)" by blast
next
  fix host seen result
  assume "map_of device_list host = Some seen
         \<and> add_to_device_list device_list dest_host dest_port int_address mgmt_address os_guess
              discover_name interface = Inr result"
  then show "\<exists>seen'. map_of result host = Some seen'
              \<and> (os seen' = os seen
                  \<or> (os seen = Some None \<and> host = dest_host \<and> new_device seen
                      \<and> os seen' = Some os_guess))"
    using add_to_device_list_os_step by blast
qed

theorem add_to_device_list_keeps_os_witness:
  "map_of [(''R2'', \<lparr>ports = {''Ethernet0/2''}, ip = Some {Some ''10.0.0.2''},
                     os = Some (Some ''ios''), finder = Some (''R1'', {}), new_device = True\<rparr>)] ''R2''
     = Some \<lparr>ports = {''Ethernet0/2''}, ip = Some {Some ''10.0.0.2''},
             os = Some (Some ''ios''), finder = Some (''R1'', {}), new_device = True\<rparr>
   \<and> add_to_device_list
        [(''R2'', \<lparr>ports = {''Ethernet0/2''}, ip = Some {Some ''10.0.0.2''},
                    os = Some (Some ''ios''), finder = Some (''R1'', {}), new_device = True\<rparr>)]
        ''R2'' ''Ethernet0/3'' {} {None} (Some ''nxos'') ''R4'' ''Ethernet1/1''
     = Inr [(''R2'', \<lparr>ports = {''Ethernet0/3'', ''Ethernet0/2''}, ip = Some {Some ''10.0.0.2'', None},
                       os = Some (Some ''ios''), finder = Some (''R1'', {}), new_device = True\<rparr>),
            (''R4'', \<lparr>ports = {''Ethernet1/1''}, ip = None, os = None, finder = None,
                       new_device = False\<rparr>)]
   \<and> (\<exists>device_list' known'.
        add_to_device_list
          [(''R2'', \<lparr>ports = {''Ethernet0/2''}, ip = Some {Some ''10.0.0.2''},
                      os = Some (Some ''ios''), finder = Some (''R1'', {}), new_device = True\<rparr>)]
          ''R2'' ''Ethernet0/3'' {} {None} (Some ''nxos'') ''R4'' ''Ethernet1/1'' = Inr device_list'
        \<and> map_of device_list' ''R2'' = Some known' \<and> os known' = Some (Some ''ios''))"
  using add_to_device_list_keeps_os [of
      "[(''R2'', \<lparr>ports = {''Ethernet0/2''}, ip = Some {Some ''10.0.0.2''},
                   os = Some (Some ''ios''), finder = Some (''R1'', {}), new_device = True\<rparr>)]"
      "''R2''"
      "\<lparr>ports = {''Ethernet0/2''}, ip = Some {Some ''10.0.0.2''},
             os = Some (Some ''ios''), finder = Some (''R1'', {}), new_device = True\<rparr>"
      "''ios''" "''Ethernet0/3''" "{}" "{None}" "Some ''nxos''" "''R4''" "''Ethernet1/1''"]
  by (simp add: add_to_device_list_def add_discovering_device_def insert_commute)

subsection \<open>C8: the entry of the discovering device\<close>

text \<open>
  C8. The claim fails on the code. Device \<open>R1\<close> reports two neighbours, \<open>R2\<close> on its
  \<open>Ethernet0/1\<close> and \<open>R3\<close> on its \<open>Ethernet0/2\<close>. After the two calls the entry of the
  discovering device \<open>R1\<close> still has the port set \<open>{Ethernet0/1}\<close>: the second call added
  \<open>R1\<close>'s interface \<open>Ethernet0/2\<close> to the port set of the remote host \<open>R3\<close> instead.
  And a call whose remote host is a non-pending entry returns before the discovering
  device is looked at, so \<open>R3\<close> gets no entry in the last conjunct.
\<close>

theorem add_to_device_list_discoverer_ports:
  "add_to_device_list [] ''R2'' ''Ethernet0/0'' {} {Some ''10.0.0.2''} None ''R1'' ''Ethernet0/1''
     = Inr [(''R2'', \<lparr>ports = {''Ethernet0/0''}, ip = Some {Some ''10.0.0.2''}, os = Some None,
                       finder = Some (''R1'', {}), new_device = True\<rparr>),
            (''R1'', \<lparr>ports = {''Ethernet0/1''}, ip = None, os = None, finder = None,
                       new_device = False\<rparr>)]
   \<and> add_to_device_list
        [(''R2'', \<lparr>ports = {''Ethernet0/0''}, ip = Some {Some ''10.0.0.2''}, os = Some None,
                    finder = Some (''R1'', {}), new_device = True\<rparr>),
         (''R1'', \<lparr>ports = {''Ethernet0/1''}, ip = None, os = None, finder = None,
                    new_device = False\<rparr>)]
        ''R3'' ''Ethernet0/3'' {} {Some ''10.0.0.3''} None ''R1'' ''Ethernet0/2''
     = Inr [(''R2'', \<lparr>ports = {''Ethernet0/0''}, ip = Some {Some ''10.0.0.2''}, os = Some None,
                       finder = Some (''R1'', {}), new_device = True\<rparr>),
            (''R1'', \<lparr>ports = {''Ethernet0/1''}, ip = None, os = None, finder = None,
                       new_device = False\<rparr>),
            (''R3'', \<lparr>ports = {''Ethernet0/2'', ''Ethernet0/3''}, ip = Some {Some ''10.0.0.3''},
                       os = Some None, finder = Some (''R1'', {}), new_device = True\<rparr>)]
   \<and> add_to_device_list
        [(''R1'', \<lparr>ports = {''Ethernet0/1''}, ip = None, os = None, finder = None,
                    new_device = False\<rparr>)]
        ''R1'' ''Ethernet0/1'' {} {Some ''10.0.0.1''} None ''R3'' ''Ethernet0/3''
     = Inr [(''R1'', \<lparr>ports = {''Ethernet0/1''}, ip = None, os = None, finder = None,
                       new_device = False\<rparr>)]"
  by (simp add: add_to_device_list_def add_discovering_device_def)

subsection \<open>C3: adjacencies with an address in an excluded network\<close>

lemma in_excluded_network_False:
  "in_excluded_network P pairs = Inr False \<Longrightarrow> (ip_text, net) \<in> set pairs \<Longrightarrow>
     \<exists>a. P ip_text = Some a \<and> \<not> in_network a net"
  by (induction pairs) (auto split: option.splits if_splits)

lemma in_excluded_network_returns:
  "(\<And>ip_text net. (ip_text, net) \<in> set pairs \<Longrightarrow> P ip_text \<noteq> None) \<Longrightarrow>
     \<exists>b. in_excluded_network P pairs = Inr b"
proof (induction pairs)
  case Nil
  show ?case by (simp add: exI [of _ False])
next
  case (Cons pair pairs)
  obtain ip_text net where p: "pair = (ip_text, net)" by (cases pair)
  with Cons.prems obtain a where "P ip_text = Some a" by fastforce
  moreover have "\<exists>b. in_excluded_network P pairs = Inr b"
    by (rule Cons.IH) (use Cons.prems in auto)
  ultimately show ?case using p by auto
qed

lemma in_excluded_network_one:
  "P ip_text = Some a \<Longrightarrow>
     in_excluded_network P (map (Pair ip_text) nets) = Inr (list_ex (in_network a) nets)"
  by (induction nets) auto

lemma cdp_excluded_stops:
  assumes "ip_text \<in> set int_address \<union> set mgmt_address"
      and "lies_in_excluded P nets ip_text"
      and "in_excluded_network P (List.product (remdups int_address) nets) = Inr stop_int"
      and "in_excluded_network P (List.product (remdups mgmt_address) nets) = Inr stop_mgmt"
  shows "stop_int \<or> stop_mgmt"
proof (rule ccontr)
  assume "\<not> (stop_int \<or> stop_mgmt)"
  then have f: "in_excluded_network P (List.product (remdups int_address) nets) = Inr False"
    "in_excluded_network P (List.product (remdups mgmt_address) nets) = Inr False"
    using assms(3,4) by auto
  from assms(2) obtain a net where a: "P ip_text = Some a" "net \<in> set nets" "in_network a net"
    by (auto simp: lies_in_excluded_def list_ex_iff split: option.splits)
  from assms(1) show False
  proof
    assume "ip_text \<in> set int_address"
    then have "(ip_text, net) \<in> set (List.product (remdups int_address) nets)" using a(2) by simp
    from in_excluded_network_False [OF f(1) this] a show False by simp
  next
    assume "ip_text \<in> set mgmt_address"
    then have "(ip_text, net) \<in> set (List.product (remdups mgmt_address) nets)" using a(2) by simp
    from in_excluded_network_False [OF f(2) this] a show False by simp
  qed
qed

lemma cdp_excluded_unchanged:
  assumes "ip_text \<in> cdp_candidate_addresses connection"
      and "lies_in_excluded P nets ip_text"
      and "process_cdp_connection self P connection device_name device_list nets testbed
             device_connections = Inr r"
  shows "r = (device_list, device_connections)"
proof (rule ccontr)
  assume n: "r \<noteq> (device_list, device_connections)"
  from assms(3) n obtain int_address mgmt_address stop_int stop_mgmt where
    i: "interface_addresses connection = Some int_address"
    and m: "management_addresses connection = Some mgmt_address"
    and si: "in_excluded_network P (List.product (remdups int_address) nets) = Inr stop_int"
    and sm: "in_excluded_network P (List.product (remdups mgmt_address) nets) = Inr stop_mgmt"
    and ns: "\<not> (stop_int \<or> stop_mgmt)"
    by (auto simp: process_cdp_connection_def Let_def split: option.splits if_splits sum.splits)
  from assms(1) i m have "ip_text \<in> set int_address \<union> set mgmt_address"
    by (simp add: cdp_candidate_addresses_def)
  from cdp_excluded_stops [OF this assms(2) si sm] ns show False by simp
qed

lemma cdp_excluded_returns:
  assumes "ip_text \<in> cdp_candidate_addresses connection"
      and "lies_in_excluded P nets ip_text"
      and name: "(system_name connection \<noteq> None \<and> system_name connection \<noteq> Some []) \<or> device_id connection \<noteq> None"
      and fields: "interface_addresses connection \<noteq> None" "management_addresses connection \<noteq> None"
      and parse: "\<forall>a \<in> cdp_candidate_addresses connection. P a \<noteq> None"
  shows "process_cdp_connection self P connection device_name device_list nets testbed
           device_connections = Inr (device_list, device_connections)"
proof -
  from fields obtain int_address mgmt_address where
    i: "interface_addresses connection = Some int_address"
    and m: "management_addresses connection = Some mgmt_address" by auto
  have "\<exists>b. in_excluded_network P (List.product (remdups int_address) nets) = Inr b"
    by (rule in_excluded_network_returns) (use parse i in \<open>auto simp: cdp_candidate_addresses_def\<close>)
  then obtain stop_int where
    si: "in_excluded_network P (List.product (remdups int_address) nets) = Inr stop_int" by blast
  have "\<exists>b. in_excluded_network P (List.product (remdups mgmt_address) nets) = Inr b"
    by (rule in_excluded_network_returns) (use parse m in \<open>auto simp: cdp_candidate_addresses_def\<close>)
  then obtain stop_mgmt where
    sm: "in_excluded_network P (List.product (remdups mgmt_address) nets) = Inr stop_mgmt" by blast
  from assms(1) i m have "ip_text \<in> set int_address \<union> set mgmt_address"
    by (simp add: cdp_candidate_addresses_def)
  from cdp_excluded_stops [OF this assms(2) si sm] have st: "stop_int \<or> stop_mgmt" .
  from name have "\<exists>dest_host. (case system_name connection of None \<Rightarrow> device_id connection
         | Some name \<Rightarrow> if name = [] then device_id connection else Some name) = Some dest_host"
    by (cases "system_name connection") auto
  then obtain dest_host where
    d: "(case system_name connection of None \<Rightarrow> device_id connection
         | Some name \<Rightarrow> if name = [] then device_id connection else Some name) = Some dest_host"
    by blast
  show ?thesis
    unfolding process_cdp_connection_def Let_def d
    using i m si sm st by auto
qed

lemma lldp_excluded_unchanged:
  assumes "lldp_neighbor_read port = Some neighbor"
      and "lldp_candidate_address neighbor = Some ip_text"
      and "lies_in_excluded P nets ip_text"
  shows "process_lldp_connection self P interface dest_port port device_name device_list nets
           testbed device_connections = Inr (device_list, device_connections)"
proof -
  from assms(3) obtain a where a: "P ip_text = Some a" "list_ex (in_network a) nets"
    by (auto simp: lies_in_excluded_def split: option.splits)
  from assms(1) obtain first_key first_value others where
    n: "neighbors port = (first_key, first_value) # others"
    by (cases "neighbors port") (auto simp: lldp_neighbor_read_def)
  from assms(2) have c: "(case management_address neighbor of
                            None \<Rightarrow> management_address_v4 neighbor | Some a \<Rightarrow> Some a) = Some ip_text"
    by (simp add: lldp_candidate_address_def)
  show ?thesis
    unfolding process_lldp_connection_def Let_def
    using n assms(1) c a by (simp add: lldp_neighbor_read_def in_excluded_network_one)
qed

text \<open>
  C3. An adjacency one of whose candidate addresses parses and lies in an excluded network
  leaves the registry and the connection dictionary as they were. On the CDP path the
  processing of the entry either raises or returns both unchanged, and it returns when the
  entry has a name, both address fields are present and every candidate address parses. On
  the LLDP path, for the neighbour entry the code reads, it returns both unchanged.
\<close>

theorem excluded_network_not_recorded:
  "(ip_text \<in> cdp_candidate_addresses connection
      \<and> lies_in_excluded IPv4Address exclude_networks ip_text
    \<longrightarrow> (\<forall>r. process_cdp_connection self IPv4Address connection device_name device_list
                 exclude_networks testbed device_connections = Inr r
              \<longrightarrow> r = (device_list, device_connections))
        \<and> (((system_name connection \<noteq> None \<and> system_name connection \<noteq> Some [])
               \<or> device_id connection \<noteq> None)
             \<and> interface_addresses connection \<noteq> None
             \<and> management_addresses connection \<noteq> None
             \<and> (\<forall>a \<in> cdp_candidate_addresses connection. IPv4Address a \<noteq> None)
            \<longrightarrow> process_cdp_connection self IPv4Address connection device_name device_list
                  exclude_networks testbed device_connections
                = Inr (device_list, device_connections)))
   \<and> (lldp_neighbor_read port = Some neighbor
        \<and> lldp_candidate_address neighbor = Some lldp_ip
        \<and> lies_in_excluded IPv4Address exclude_networks lldp_ip
      \<longrightarrow> process_lldp_connection self IPv4Address interface dest_port port device_name
            device_list exclude_networks testbed device_connections
          = Inr (device_list, device_connections))"
  using cdp_excluded_unchanged [of ip_text connection IPv4Address exclude_networks self
      device_name device_list testbed device_connections]
    cdp_excluded_returns [of ip_text connection IPv4Address exclude_networks self
      device_name device_list testbed device_connections]
    lldp_excluded_unchanged [of port neighbor lldp_ip IPv4Address exclude_networks self
      interface dest_port device_name device_list testbed device_connections]
  by blast

theorem excluded_network_not_recorded_witness:
  "''192.168.1.5'' \<in> cdp_candidate_addresses example_cdp_entry
   \<and> lies_in_excluded dotted_quad [example_network] ''192.168.1.5''
   \<and> process_cdp_connection \<lparr>only_links = False, exclude_interfaces = []\<rparr> dotted_quad
        example_cdp_entry ''R1'' [] [example_network] example_testbed [] = Inr ([], [])
   \<and> lldp_neighbor_read example_lldp_port
        = Some \<lparr>management_address = Some ''192.168.1.5'', management_address_v4 = None,
                 system_description = ''Cisco IOS Software, C2960''\<rparr>
   \<and> process_lldp_connection \<lparr>only_links = False, exclude_interfaces = []\<rparr> dotted_quad
        ''Ethernet0/1'' ''Ethernet0/2'' example_lldp_port ''R1'' [] [example_network]
        example_testbed [] = Inr ([], [])
   \<and> process_cdp_connection \<lparr>only_links = False, exclude_interfaces = []\<rparr> dotted_quad
        example_cdp_entry ''R1'' [] [] example_testbed []
      = Inr ([(''R2'', \<lparr>ports = {''Ethernet0/2''}, ip = Some {Some ''192.168.1.5''},
                          os = Some (Some ''ios''), finder = Some (''R1'', {}),
                          new_device = True\<rparr>),
              (''R1'', \<lparr>ports = {''Ethernet0/1''}, ip = None, os = None, finder = None,
                          new_device = False\<rparr>)],
             [(''Ethernet0/1'', [\<lparr>entry_host = ''R2'', entry_port = ''Ethernet0/2''\<rparr>])])"
  using excluded_network_not_recorded [where ip_text = "''192.168.1.5''"
      and connection = example_cdp_entry and IPv4Address = dotted_quad
      and exclude_networks = "[example_network]"
      and self = "\<lparr>only_links = False, exclude_interfaces = []\<rparr>"
      and device_name = "''R1''" and device_list = "[]" and testbed = example_testbed
      and device_connections = "[]" and port = example_lldp_port
      and neighbor = "\<lparr>management_address = Some ''192.168.1.5'', management_address_v4 = None,
                 system_description = ''Cisco IOS Software, C2960''\<rparr>"
      and lldp_ip = "''192.168.1.5''" and interface = "''Ethernet0/1''"
      and dest_port = "''Ethernet0/2''"]
  by (simp add: cdp_candidate_addresses_def lies_in_excluded_def example_cdp_entry_def
      example_network_def example_lldp_port_def example_testbed_def dotted_quad_def
      parse_octet_def is_digit_def in_network_def lldp_neighbor_read_def
      lldp_candidate_address_def hostname_char_def process_cdp_connection_def
      process_lldp_connection_def get_os_def add_to_device_list_def
      add_discovering_device_def add_to_device_connections_def Let_def)

subsection \<open>C7: the interface filter\<close>

text \<open>
  C7. The claim fails on the code. With the exclusion argument \<open>'Ethernet0/10'\<close>, whose
  only entry is \<open>Ethernet0/10\<close>, the adjacency of \<open>R1\<close>'s \<open>Ethernet0/1\<close> with \<open>R2\<close>'s
  \<open>Ethernet0/2\<close> is dropped on both paths: the argument is a string, and the test
  \<open>interface in self._exclude_interfaces\<close> is true for every substring of it. With the
  argument \<open>'Ethernet0/3'\<close> the same adjacency is recorded.
\<close>

theorem exclude_interfaces_substring:
  "local_interface example_cdp_entry = ''Ethernet0/1''
   \<and> port_id example_cdp_entry = ''Ethernet0/2''
   \<and> process_cdp_connection \<lparr>only_links = False, exclude_interfaces = ''Ethernet0/10''\<rparr>
        dotted_quad example_cdp_entry ''R1'' [] [] example_testbed [] = Inr ([], [])
   \<and> process_lldp_connection \<lparr>only_links = False, exclude_interfaces = ''Ethernet0/10''\<rparr>
        dotted_quad ''Ethernet0/1'' ''Ethernet0/2'' example_lldp_port ''R1'' [] []
        example_testbed [] = Inr ([], [])
   \<and> process_cdp_connection \<lparr>only_links = False, exclude_interfaces = ''Ethernet0/3''\<rparr>
        dotted_quad example_cdp_entry ''R1'' [] [] example_testbed []
      = Inr ([(''R2'', \<lparr>ports = {''Ethernet0/2''}, ip = Some {Some ''192.168.1.5''},
                          os = Some (Some ''ios''), finder = Some (''R1'', {}),
                          new_device = True\<rparr>),
              (''R1'', \<lparr>ports = {''Ethernet0/1''}, ip = None, os = None, finder = None,
                          new_device = False\<rparr>)],
             [(''Ethernet0/1'', [\<lparr>entry_host = ''R2'', entry_port = ''Ethernet0/2''\<rparr>])])
   \<and> process_lldp_connection \<lparr>only_links = False, exclude_interfaces = ''Ethernet0/3''\<rparr>
        dotted_quad ''Ethernet0/1'' ''Ethernet0/2'' example_lldp_port ''R1'' [] []
        example_testbed []
      = Inr ([(''R2'', \<lparr>ports = {''Ethernet0/2''}, ip = Some {Some ''192.168.1.5''},
                          os = Some (Some ''ios''), finder = Some (''R1'', {}),
                          new_device = True\<rparr>),
              (''R1'', \<lparr>ports = {''Ethernet0/1''}, ip = None, os = None, finder = None,
                          new_device = False\<rparr>)],
             [(''Ethernet0/1'', [\<lparr>entry_host = ''R2'', entry_port = ''Ethernet0/2''\<rparr>])])"
  by (simp add: example_cdp_entry_def example_lldp_port_def example_testbed_def
      hostname_char_def process_cdp_connection_def process_lldp_connection_def get_os_def
      add_to_device_list_def add_discovering_device_def add_to_device_connections_def Let_def)

subsection \<open>C1: the connection dictionary is not returned\<close>

lemma set_update_subset: "set (AList.update k v al) \<subseteq> insert (k, v) (set al)"
  by (induction al) auto

lemma get_device_connections_None:
  "get_device_connections self P data device_name dl nets tb = Inr (dl', returned) \<Longrightarrow>
     returned = None"
  by (auto simp: get_device_connections_def split: sum.splits)

lemma process_entry_None:
  assumes "process_entry self P tb nets entry dl cd = Inr (dl', cd')"
      and "\<forall>(d, v) \<in> set cd. v = None"
  shows "(\<forall>(d, v) \<in> set cd'. v = None) \<and> fst ` set cd' = fst ` set cd \<union> fst ` set entry"
  using assms
proof (induction entry arbitrary: dl cd)
  case Nil
  then show ?case by auto
next
  case (Cons pair entry)
  obtain device data where p: "pair = (device, data)" by (cases pair)
  from Cons.prems(1) p obtain dl1 returned where
    g: "get_device_connections self P data device dl nets tb = Inr (dl1, returned)"
    and r: "process_entry self P tb nets entry dl1 (AList.update device returned cd) = Inr (dl', cd')"
    by (auto split: sum.splits)
  from g have "returned = None" by (rule get_device_connections_None)
  with Cons.prems(2) have "\<forall>(d, v) \<in> set (AList.update device returned cd). v = None"
    using set_update_subset [of device returned cd] by auto
  from Cons.IH [OF r this] show ?case using p by (auto simp: dom_update)
qed

lemma process_entries_None:
  assumes "process_entries self P tb nets result dl cd = Inr (dl', cd')"
      and "\<forall>(d, v) \<in> set cd. v = None"
  shows "(\<forall>(d, v) \<in> set cd'. v = None)
         \<and> fst ` set cd' = fst ` set cd \<union> (\<Union>entry \<in> set result. fst ` set entry)"
  using assms
proof (induction result arbitrary: dl cd)
  case Nil
  then show ?case by auto
next
  case (Cons entry result)
  from Cons.prems(1) obtain dl1 cd1 where
    e: "process_entry self P tb nets entry dl cd = Inr (dl1, cd1)"
    and r: "process_entries self P tb nets result dl1 cd1 = Inr (dl', cd')"
    by (auto split: sum.splits)
  from process_entry_None [OF e Cons.prems(2)] have
    i: "\<forall>(d, v) \<in> set cd1. v = None" and k: "fst ` set cd1 = fst ` set cd \<union> fst ` set entry"
    by auto
  from Cons.IH [OF r i] k show ?case by auto
qed

lemma write_connections_None:
  "cd \<noteq> [] \<Longrightarrow> \<forall>(d, v) \<in> set cd. v = None \<Longrightarrow> write_connections_to_testbed cd tb = Inl TypeError"
  by (cases cd) auto

text \<open>
  C1. Whatever connection dictionary the body of \<open>get_device_connections\<close> has built, the
  function's value is \<open>None\<close>. So the dictionary that \<open>process_neighbor_data\<close> returns has
  exactly the polled device names as keys, each mapped to \<open>None\<close>, and when at least one
  device was polled \<open>_write_connections_to_testbed\<close> raises \<open>TypeError\<close> on it, for every
  testbed.
\<close>

theorem connection_dictionary_lost:
  "(device_connections_built self IPv4Address data device_name device_list exclude_networks
        testbed = Inr (device_list', built)
      \<longrightarrow> get_device_connections self IPv4Address data device_name device_list exclude_networks
            testbed = Inr (device_list', None))
   \<and> (get_device_connections self IPv4Address data device_name device_list exclude_networks
        testbed = Inr (device_list', returned)
      \<longrightarrow> returned = None)
   \<and> (process_neighbor_data self IPv4Address testbed device_list exclude_networks result
        = Inr (registry, conn_dict)
      \<longrightarrow> fst ` set conn_dict = (\<Union>entry \<in> set result. fst ` set entry)
          \<and> (\<forall>device \<in> fst ` set conn_dict. map_of conn_dict device = Some None)
          \<and> ((\<exists>entry \<in> set result. entry \<noteq> [])
               \<longrightarrow> write_connections_to_testbed conn_dict later_testbed = Inl TypeError))"
proof (intro conjI impI)
  assume "device_connections_built self IPv4Address data device_name device_list
            exclude_networks testbed = Inr (device_list', built)"
  then show "get_device_connections self IPv4Address data device_name device_list
               exclude_networks testbed = Inr (device_list', None)"
    by (simp add: get_device_connections_def)
next
  assume "get_device_connections self IPv4Address data device_name device_list
            exclude_networks testbed = Inr (device_list', returned)"
  then show "returned = None" by (rule get_device_connections_None)
next
  assume a: "process_neighbor_data self IPv4Address testbed device_list exclude_networks result
               = Inr (registry, conn_dict)"
  then have "process_entries self IPv4Address testbed exclude_networks result device_list []
               = Inr (registry, conn_dict)"
    by (simp add: process_neighbor_data_def)
  from process_entries_None [OF this] have
    n: "\<forall>(d, v) \<in> set conn_dict. v = None"
    and k: "fst ` set conn_dict = (\<Union>entry \<in> set result. fst ` set entry)" by auto
  from k show "fst ` set conn_dict = (\<Union>entry \<in> set result. fst ` set entry)" .
  show "\<forall>device \<in> fst ` set conn_dict. map_of conn_dict device = Some None"
  proof
    fix device assume "device \<in> fst ` set conn_dict"
    then obtain v where v: "map_of conn_dict device = Some v"
      by (metis domD dom_map_of_conv_image_fst)
    then have "(device, v) \<in> set conn_dict" by (rule map_of_SomeD)
    with n v show "map_of conn_dict device = Some None" by auto
  qed
  assume "\<exists>entry \<in> set result. entry \<noteq> []"
  then have "(\<Union>entry \<in> set result. fst ` set entry) \<noteq> {}" by auto
  with k have "conn_dict \<noteq> []" by auto
  then show "write_connections_to_testbed conn_dict later_testbed = Inl TypeError"
    using n by (rule write_connections_None)
qed

theorem connection_dictionary_lost_witness:
  "device_connections_built \<lparr>only_links = False, exclude_interfaces = []\<rparr> dotted_quad
      example_data ''R1'' [] [] example_testbed
     = Inr ([(''R2'', \<lparr>ports = {''Ethernet0/1'', ''Ethernet0/2''},
                         ip = Some {Some ''192.168.1.5''}, os = Some (Some ''ios''),
                         finder = Some (''R1'', {}), new_device = True\<rparr>),
             (''R1'', \<lparr>ports = {''Ethernet0/1''}, ip = None, os = None, finder = None,
                         new_device = False\<rparr>)],
            [(''Ethernet0/1'', [\<lparr>entry_host = ''R2'', entry_port = ''Ethernet0/2''\<rparr>])])
   \<and> get_device_connections \<lparr>only_links = False, exclude_interfaces = []\<rparr> dotted_quad
        example_data ''R1'' [] [] example_testbed
     = Inr ([(''R2'', \<lparr>ports = {''Ethernet0/1'', ''Ethernet0/2''},
                         ip = Some {Some ''192.168.1.5''}, os = Some (Some ''ios''),
                         finder = Some (''R1'', {}), new_device = True\<rparr>),
             (''R1'', \<lparr>ports = {''Ethernet0/1''}, ip = None, os = None, finder = None,
                         new_device = False\<rparr>)],
            None)
   \<and> process_neighbor_data \<lparr>only_links = False, exclude_interfaces = []\<rparr> dotted_quad
        example_testbed [] [] [[(''R1'', example_data)]]
     = Inr ([(''R2'', \<lparr>ports = {''Ethernet0/1'', ''Ethernet0/2''},
                         ip = Some {Some ''192.168.1.5''}, os = Some (Some ''ios''),
                         finder = Some (''R1'', {}), new_device = True\<rparr>),
             (''R1'', \<lparr>ports = {''Ethernet0/1''}, ip = None, os = None, finder = None,
                         new_device = False\<rparr>)],
            [(''R1'', None)])
   \<and> write_connections_to_testbed [(''R1'', None)] example_testbed = Inl TypeError"
proof -
  have built:
    "device_connections_built \<lparr>only_links = False, exclude_interfaces = []\<rparr> dotted_quad
        example_data ''R1'' [] [] example_testbed
     = Inr ([(''R2'', \<lparr>ports = {''Ethernet0/1'', ''Ethernet0/2''},
                         ip = Some {Some ''192.168.1.5''}, os = Some (Some ''ios''),
                         finder = Some (''R1'', {}), new_device = True\<rparr>),
             (''R1'', \<lparr>ports = {''Ethernet0/1''}, ip = None, os = None, finder = None,
                         new_device = False\<rparr>)],
            [(''Ethernet0/1'', [\<lparr>entry_host = ''R2'', entry_port = ''Ethernet0/2''\<rparr>])])"
    by (simp add: device_connections_built_def example_data_def example_cdp_entry_def
        example_lldp_port_def example_testbed_def process_cdp_information_def
        process_lldp_information_def hostname_char_def process_cdp_connection_def
        process_lldp_connection_def get_os_def add_to_device_list_def
        add_discovering_device_def add_to_device_connections_def Let_def insert_commute)
  from built have returned:
    "get_device_connections \<lparr>only_links = False, exclude_interfaces = []\<rparr> dotted_quad
        example_data ''R1'' [] [] example_testbed
     = Inr ([(''R2'', \<lparr>ports = {''Ethernet0/1'', ''Ethernet0/2''},
                         ip = Some {Some ''192.168.1.5''}, os = Some (Some ''ios''),
                         finder = Some (''R1'', {}), new_device = True\<rparr>),
             (''R1'', \<lparr>ports = {''Ethernet0/1''}, ip = None, os = None, finder = None,
                         new_device = False\<rparr>)],
            None)"
    using connection_dictionary_lost [where self = "\<lparr>only_links = False, exclude_interfaces = []\<rparr>"
        and IPv4Address = dotted_quad and data = example_data and device_name = "''R1''"
        and device_list = "[]" and exclude_networks = "[]" and testbed = example_testbed]
    by blast
  then have "process_neighbor_data \<lparr>only_links = False, exclude_interfaces = []\<rparr> dotted_quad
        example_testbed [] [] [[(''R1'', example_data)]]
     = Inr ([(''R2'', \<lparr>ports = {''Ethernet0/1'', ''Ethernet0/2''},
                         ip = Some {Some ''192.168.1.5''}, os = Some (Some ''ios''),
                         finder = Some (''R1'', {}), new_device = True\<rparr>),
             (''R1'', \<lparr>ports = {''Ethernet0/1''}, ip = None, os = None, finder = None,
                         new_device = False\<rparr>)],
            [(''R1'', None)])"
    by (simp add: process_neighbor_data_def)
  with built returned show ?thesis by simp
qed

subsection \<open>C2: links\<close>

lemma link_names: "format_num 0 = ''0''" "format_num (Suc 0) = ''1''"
  by code_simp+

text \<open>
  C2. The claim fails on the code. \<open>R2\<close>'s interface \<open>e2\<close> connects to \<open>R3\<close>'s \<open>e3\<close>, and
  \<open>R1\<close>'s \<open>e1\<close> connects to \<open>R2\<close>'s \<open>e2\<close>. With \<open>R2\<close> first in the dictionary, \<open>e2\<close> and
  \<open>e3\<close> form \<open>Link_0\<close>; then \<open>e1\<close> has no link, so a new \<open>Link_1\<close> is made of \<open>e1\<close> and
  \<open>e2\<close>, although \<open>e2\<close> has a link. \<open>e2\<close> is then in the interface lists of both links,
  and no link holds the three interfaces. With \<open>R1\<close> first the same facts give one link.
\<close>

theorem write_connections_second_link:
  "write_connections_to_testbed example_connections three_routers = Inr two_links
   \<and> links_of two_links (''R2'', ''e2'') = [0, 1]
   \<and> links_of two_links (''R1'', ''e1'') = [1]
   \<and> links_of two_links (''R3'', ''e3'') = [0]
   \<and> write_connections_to_testbed example_connections_reordered three_routers = Inr one_link"
  by (simp add: example_connections_def example_connections_reordered_def three_routers_def
      two_links_def one_link_def links_of_def write_interface_connections_def
      get_interface_def new_link_def connect_interface_def set_interface_link_def
      testbed_links_def link_names Let_def upt_rec)

subsection \<open>The search for the finder's ssh connection\<close>

lemma find_ssh_proxy_first:
  assumes "list_all (\<lambda>(name, other). name = ''defaults''
                       \<or> (\<exists>p. protocol other = Some p \<and> (p \<noteq> ''ssh'' \<or> proxy other = None)))
             before"
      and "conn \<noteq> ''defaults''"
      and "protocol connection_detail = Some ''ssh''"
      and "proxy connection_detail = Some via"
      and "conn_address connection_detail = Some conn_ip"
  shows "find_ssh_proxy (before @ (conn, connection_detail) # after) = Inr (Some (via, conn_ip))"
  using assms(1)
proof (induction before)
  case Nil
  show ?case using assms(2-5) by simp
next
  case (Cons entry before)
  obtain name other where e: "entry = (name, other)" by (cases entry)
  from Cons.prems e have
    skip: "name = ''defaults'' \<or> (\<exists>p. protocol other = Some p \<and> (p \<noteq> ''ssh'' \<or> proxy other = None))"
    and rest: "list_all (\<lambda>(name, other). name = ''defaults''
                       \<or> (\<exists>p. protocol other = Some p \<and> (p \<noteq> ''ssh'' \<or> proxy other = None)))
                 before"
    by auto
  from Cons.IH [OF rest] skip e show ?case by auto
qed

subsection \<open>C9: a proxy value that is a list\<close>

text \<open>
  C9. The claim fails on the code: no copy is made. The finder \<open>R1\<close> is reached through
  the two-step list at position 0. The call for the address \<open>172.16.0.9\<close> returns that
  list itself, and the list stored for the finder then has three steps and a rewritten
  second command. A second call, for \<open>172.16.0.77\<close>, as \<open>create_new_device\<close> makes for
  each further address of the finder, takes the appended step for the hop that reaches the
  finder: it overwrites the command to \<open>172.16.0.9\<close> in the list that the first call
  returned.
\<close>

theorem write_proxy_chain_changes_stored_list:
  "chain_steps
      (proxied_finder (ProxyList 0) [[0, 1]]
         [\<lparr>step_device = ''jump1'', step_command = ''ssh jump2''\<rparr>,
          \<lparr>step_device = ''jump2'', step_command = ''ssh 10.0.0.1''\<rparr>]) 0
     = [\<lparr>step_device = ''jump1'', step_command = ''ssh jump2''\<rparr>,
        \<lparr>step_device = ''jump2'', step_command = ''ssh 10.0.0.1''\<rparr>]
   \<and> write_proxy_chain ''R1''
        (proxied_finder (ProxyList 0) [[0, 1]]
           [\<lparr>step_device = ''jump1'', step_command = ''ssh jump2''\<rparr>,
            \<lparr>step_device = ''jump2'', step_command = ''ssh 10.0.0.1''\<rparr>])
        example_credentials ''172.16.0.9''
     = Inr (ProxyList 0,
            proxied_finder (ProxyList 0) [[0, 1, 2]]
              [\<lparr>step_device = ''jump1'', step_command = ''ssh jump2''\<rparr>,
               \<lparr>step_device = ''jump2'', step_command = ''ssh admin@10.0.0.1''\<rparr>,
               \<lparr>step_device = ''R1'', step_command = ''ssh admin@172.16.0.9''\<rparr>])
   \<and> chain_steps
        (proxied_finder (ProxyList 0) [[0, 1, 2]]
           [\<lparr>step_device = ''jump1'', step_command = ''ssh jump2''\<rparr>,
            \<lparr>step_device = ''jump2'', step_command = ''ssh admin@10.0.0.1''\<rparr>,
            \<lparr>step_device = ''R1'', step_command = ''ssh admin@172.16.0.9''\<rparr>]) 0
     = [\<lparr>step_device = ''jump1'', step_command = ''ssh jump2''\<rparr>,
        \<lparr>step_device = ''jump2'', step_command = ''ssh admin@10.0.0.1''\<rparr>,
        \<lparr>step_device = ''R1'', step_command = ''ssh admin@172.16.0.9''\<rparr>]
   \<and> write_proxy_chain ''R1''
        (proxied_finder (ProxyList 0) [[0, 1, 2]]
           [\<lparr>step_device = ''jump1'', step_command = ''ssh jump2''\<rparr>,
            \<lparr>step_device = ''jump2'', step_command = ''ssh admin@10.0.0.1''\<rparr>,
            \<lparr>step_device = ''R1'', step_command = ''ssh admin@172.16.0.9''\<rparr>])
        example_credentials ''172.16.0.77''
     = Inr (ProxyList 0,
            proxied_finder (ProxyList 0) [[0, 1, 2, 3]]
              [\<lparr>step_device = ''jump1'', step_command = ''ssh jump2''\<rparr>,
               \<lparr>step_device = ''jump2'', step_command = ''ssh admin@10.0.0.1''\<rparr>,
               \<lparr>step_device = ''R1'', step_command = ''ssh admin@10.0.0.1''\<rparr>,
               \<lparr>step_device = ''R1'', step_command = ''ssh admin@172.16.0.77''\<rparr>])"
  by (simp add: write_proxy_chain_def proxied_finder_def finder_connections_def
      example_credentials_def chain_steps_def Let_def)

text \<open>
  The rewritten step is an object: a second stored list that holds a reference to it
  shows the new command too.
\<close>

lemma write_proxy_chain_shared_step:
  "write_proxy_chain ''R1''
      (proxied_finder (ProxyList 0) [[0, 1], [1]]
         [\<lparr>step_device = ''jump1'', step_command = ''ssh jump2''\<rparr>,
          \<lparr>step_device = ''jump2'', step_command = ''ssh 10.0.0.1''\<rparr>])
      example_credentials ''172.16.0.9''
     = Inr (ProxyList 0,
            proxied_finder (ProxyList 0) [[0, 1, 2], [1]]
              [\<lparr>step_device = ''jump1'', step_command = ''ssh jump2''\<rparr>,
               \<lparr>step_device = ''jump2'', step_command = ''ssh admin@10.0.0.1''\<rparr>,
               \<lparr>step_device = ''R1'', step_command = ''ssh admin@172.16.0.9''\<rparr>])
   \<and> chain_steps
        (proxied_finder (ProxyList 0) [[0, 1, 2], [1]]
           [\<lparr>step_device = ''jump1'', step_command = ''ssh jump2''\<rparr>,
            \<lparr>step_device = ''jump2'', step_command = ''ssh admin@10.0.0.1''\<rparr>,
            \<lparr>step_device = ''R1'', step_command = ''ssh admin@172.16.0.9''\<rparr>]) 1
     = [\<lparr>step_device = ''jump2'', step_command = ''ssh admin@10.0.0.1''\<rparr>]"
  by (simp add: write_proxy_chain_def proxied_finder_def finder_connections_def
      example_credentials_def chain_steps_def Let_def)

subsection \<open>C10: a proxy value that is a name\<close>

text \<open>
  C10. Let the finder's connections be any list in which some connection other than
  \<open>defaults\<close> has the protocol \<open>ssh\<close>, the key \<open>proxy\<close> with a proxy name and an address,
  and every connection before it is \<open>defaults\<close> or has a protocol and is not an ssh
  connection with the key \<open>proxy\<close>; whatever follows it. Then \<open>write_proxy_chain\<close> returns a
  new list whose steps are exactly two: through that proxy with the command \<open>ssh\<close> and
  that connection's address, then through the finder with the command \<open>ssh user@interface
  address\<close> for the default user of the credentials. The devices, the links and all that
  was in the two stores are as before.
\<close>

theorem write_proxy_chain_two_steps:
  assumes "map_of (devices testbed) finder_name = Some finder_device"
      and "connections finder_device = before @ (conn, connection_detail) # after"
      and "list_all (\<lambda>(name, other). name = ''defaults''
                       \<or> (\<exists>p. protocol other = Some p \<and> (p \<noteq> ''ssh'' \<or> proxy other = None)))
             before"
      and "conn \<noteq> ''defaults''"
      and "protocol connection_detail = Some ''ssh''"
      and "proxy connection_detail = Some (ProxyName proxy_name)"
      and "conn_address connection_detail = Some conn_ip"
      and "map_of credentials ''default'' = Some default_credential"
      and "map_of default_credential ''username'' = Some user"
  shows "\<exists>testbed'.
           write_proxy_chain finder_name testbed credentials interface_address
             = Inr (ProxyList (length (proxy_store testbed)), testbed')
           \<and> chain_steps testbed' (length (proxy_store testbed))
               = [\<lparr>step_device = proxy_name, step_command = ''ssh '' @ conn_ip\<rparr>,
                  \<lparr>step_device = finder_name,
                   step_command = ''ssh '' @ user @ ''@'' @ interface_address\<rparr>]
           \<and> devices testbed' = devices testbed
           \<and> link_store testbed' = link_store testbed
           \<and> take (length (proxy_store testbed)) (proxy_store testbed') = proxy_store testbed
           \<and> take (length (step_store testbed)) (step_store testbed') = step_store testbed"
proof -
  have "find_ssh_proxy (connections finder_device) = Inr (Some (ProxyName proxy_name, conn_ip))"
    unfolding assms(2) using assms(3-7) by (rule find_ssh_proxy_first)
  then have "write_proxy_chain finder_name testbed credentials interface_address
      = Inr (ProxyList (length (proxy_store testbed)),
             testbed\<lparr>proxy_store :=
                       proxy_store testbed
                         @ [[length (step_store testbed), Suc (length (step_store testbed))]],
                     step_store :=
                       step_store testbed
                         @ [\<lparr>step_device = proxy_name, step_command = ''ssh '' @ conn_ip\<rparr>,
                            \<lparr>step_device = finder_name,
                             step_command = ''ssh '' @ user @ ''@'' @ interface_address\<rparr>]\<rparr>)"
    using assms(1,8,9) by (simp add: write_proxy_chain_def)
  then show ?thesis by (simp add: chain_steps_def nth_append)
qed

theorem write_proxy_chain_two_steps_witness:
  "map_of (devices (proxied_finder (ProxyName ''jump1'') [] [])) ''R1''
     = Some \<lparr>dev_interfaces = [], connections = finder_connections (ProxyName ''jump1'')\<rparr>
   \<and> finder_connections (ProxyName ''jump1'')
     = [(''defaults'', \<lparr>protocol = None, conn_address = None, proxy = None\<rparr>),
        (''console'', \<lparr>protocol = Some ''telnet'', conn_address = Some ''10.0.0.5'',
                       proxy = Some (ProxyName ''term1'')\<rparr>),
        (''mgmt'', \<lparr>protocol = Some ''ssh'', conn_address = Some ''10.0.0.9'', proxy = None\<rparr>)]
       @ (''cli'', \<lparr>protocol = Some ''ssh'', conn_address = Some ''10.0.0.1'',
                    proxy = Some (ProxyName ''jump1'')\<rparr>)
       # [(''vty'', \<lparr>protocol = Some ''ssh'', conn_address = Some ''10.0.0.7'',
                      proxy = Some (ProxyName ''jumpT'')\<rparr>)]
   \<and> write_proxy_chain ''R1'' (proxied_finder (ProxyName ''jump1'') [] []) example_credentials
        ''172.16.0.9''
     = Inr (ProxyList 0,
            proxied_finder (ProxyName ''jump1'') [[0, 1]]
              [\<lparr>step_device = ''jump1'', step_command = ''ssh 10.0.0.1''\<rparr>,
               \<lparr>step_device = ''R1'', step_command = ''ssh admin@172.16.0.9''\<rparr>])
   \<and> chain_steps
        (proxied_finder (ProxyName ''jump1'') [[0, 1]]
           [\<lparr>step_device = ''jump1'', step_command = ''ssh 10.0.0.1''\<rparr>,
            \<lparr>step_device = ''R1'', step_command = ''ssh admin@172.16.0.9''\<rparr>]) 0
     = [\<lparr>step_device = ''jump1'', step_command = ''ssh 10.0.0.1''\<rparr>,
        \<lparr>step_device = ''R1'', step_command = ''ssh admin@172.16.0.9''\<rparr>]"
  using write_proxy_chain_two_steps [where testbed = "proxied_finder (ProxyName ''jump1'') [] []"
      and finder_name = "''R1''" and credentials = example_credentials
      and default_credential = "[(''username'', ''admin''), (''password'', ''secret'')]"
      and user = "''admin''" and proxy_name = "''jump1''" and conn_ip = "''10.0.0.1''"
      and interface_address = "''172.16.0.9''"
      and finder_device = "\<lparr>dev_interfaces = [],
                             connections = finder_connections (ProxyName ''jump1'')\<rparr>"
      and before = "[(''defaults'', \<lparr>protocol = None, conn_address = None, proxy = None\<rparr>),
        (''console'', \<lparr>protocol = Some ''telnet'', conn_address = Some ''10.0.0.5'',
                       proxy = Some (ProxyName ''term1'')\<rparr>),
        (''mgmt'', \<lparr>protocol = Some ''ssh'', conn_address = Some ''10.0.0.9'', proxy = None\<rparr>)]"
      and conn = "''cli''"
      and connection_detail = "\<lparr>protocol = Some ''ssh'', conn_address = Some ''10.0.0.1'',
                    proxy = Some (ProxyName ''jump1'')\<rparr>"
      and after = "[(''vty'', \<lparr>protocol = Some ''ssh'', conn_address = Some ''10.0.0.7'',
                      proxy = Some (ProxyName ''jumpT'')\<rparr>)]"]
  by (simp add: write_proxy_chain_def proxied_finder_def finder_connections_def
      example_credentials_def chain_steps_def)

end
